theory Spec2Isabelle
  imports Complex_Main
begin

section \<open>Risk classification\<close>

text \<open>
  Risk categories are the strings "NORMAL", "WARNING" and "CRITICAL" in the Python source;
  only these three values are ever produced.
\<close>

datatype risk = NORMAL | WARNING | CRITICAL

text \<open>
  \<^verbatim>\<open>classify_risk\<close> of monitor.py (the same function is repeated in firebase_monitor.py,
  model_training.py and real_time_input.py). Health scores are Python floats, read here
  as real numbers.
\<close>

definition classify_risk :: "real \<Rightarrow> risk" where
  "classify_risk health_score =
     (if health_score > 80 then NORMAL
      else if 50 < health_score \<and> health_score \<le> 80 then WARNING
      else CRITICAL)"

text \<open>
  The risk logic written inline in \<^verbatim>\<open>DeviceManager.handle_monitoring\<close>
  (machine_guard_core.py, step 3): the variable starts as NORMAL and is overwritten when the
  health is below 30 or below 60.
\<close>

definition risk_logic :: "real \<Rightarrow> risk" where
  "risk_logic health =
     (if health < 30 then CRITICAL
      else if health < 60 then WARNING
      else NORMAL)"

section \<open>Health mapping\<close>

text \<open>
  \<^verbatim>\<open>np.interp\<close> is NumPy library code. It is modelled after the library's compiled
  routine for a short table of breakpoints: the position of \<open>x\<close> is found by a linear scan
  (\<^verbatim>\<open>for (i = 1; i < len && key >= arr[i]; ++i); return i - 1;\<close>) after the two range
  tests, the breakpoints are not checked to be increasing, and without \<^verbatim>\<open>left\<close> and
  \<^verbatim>\<open>right\<close> the first and last table values are returned outside the range.
  Floating-point numbers are read as reals, so NaN and rounding are outside the model.
\<close>

fun linear_search :: "real \<Rightarrow> real list \<Rightarrow> nat" where
  "linear_search key [] = 0"
| "linear_search key (a # as) = (if key \<ge> a then Suc (linear_search key as) else 0)"

definition binary_search_with_guess :: "real \<Rightarrow> real list \<Rightarrow> int" where
  "binary_search_with_guess key arr =
     (if key > last arr then int (length arr)
      else if key < hd arr then - 1
      else int (linear_search key (tl arr)))"

definition np_interp :: "real \<Rightarrow> real list \<Rightarrow> real list \<Rightarrow> real" where
  "np_interp x xp fp =
     (let j = binary_search_with_guess x xp; n = int (length xp) in
      if j = - 1 then hd fp
      else if j = n then last fp
      else if j = n - 1 then fp ! nat j
      else if xp ! nat j = x then fp ! nat j
      else (fp ! (nat j + 1) - fp ! nat j) / (xp ! (nat j + 1) - xp ! nat j) * (x - xp ! nat j)
             + fp ! nat j)"

text \<open>The Python exception that a dictionary lookup raises on a missing key.\<close>

datatype error = KeyError

text \<open>
  \<^verbatim>\<open>DeviceManager.map_health\<close>: the calibration dictionary \<^verbatim>\<open>score_mapping\<close> is read at
  the keys "min_anom" and "max_nice"; a missing key raises KeyError.
\<close>

definition map_health :: "(string \<rightharpoonup> real) \<Rightarrow> real \<Rightarrow> error + real" where
  "map_health score_mapping raw_score =
     (case score_mapping ''min_anom'' of
        None \<Rightarrow> Inl KeyError
      | Some lo \<Rightarrow>
          (case score_mapping ''max_nice'' of
             None \<Rightarrow> Inl KeyError
           | Some hi \<Rightarrow> Inr (np_interp raw_score [lo, 0, hi] [0, 50, 100])))"

section \<open>Per-device state\<close>

text \<open>
  A reading as polled from the database: a dictionary of numeric fields and an optional
  "timestamp" entry. The rows handed to the pipeline (\<^verbatim>\<open>mapped_reading\<close>) list the five
  features in the order of \<^verbatim>\<open>FEATURES\<close>.
\<close>

record reading =
  entries :: "string \<rightharpoonup> real"
  timestamp :: "string option"

type_synonym sample = "(string \<times> real) list"

definition CALIBRATION_SAMPLES :: nat where
  "CALIBRATION_SAMPLES = 100"

definition MAX_CALIBRATION_TIME :: real where
  "MAX_CALIBRATION_TIME = 300"

text \<open>
  The fitted scaler and isolation forest are opaque library objects. Each is represented by
  the one method the monitoring path calls on it: \<^verbatim>\<open>scaler.transform\<close> and
  \<^verbatim>\<open>model.decision_function(...)[0]\<close>; \<open>None\<close> stands for a raised exception.
\<close>

type_synonym scaler = "sample \<Rightarrow> real list option"
type_synonym forest = "real list \<Rightarrow> real option"

text \<open>
  The calibration JSON object. \<open>anchors\<close> holds its numeric entries ("min_anom" and
  "max_nice" when written by \<^verbatim>\<open>train_model\<close>); \<open>has_baseline\<close> says whether the entries
  "baseline_mean" and "baseline_std" are present, which is all that decides whether
  \<^verbatim>\<open>analyze_sensor_contribution\<close> raises KeyError. The empty dictionary \<^verbatim>\<open>{}\<close> is
  \<open>empty_stats\<close>.
\<close>

record stats =
  anchors :: "string \<rightharpoonup> real"
  has_baseline :: bool

definition empty_stats :: stats where
  "empty_stats = \<lparr>anchors = Map.empty, has_baseline = False\<rparr>"

text \<open>
  A file under the models directory is missing, present but unreadable, or present with a
  content. The state file's content is the value of its "state" entry, if it has one. The
  training CSV is represented by its data rows; its header line is written by
  \<^verbatim>\<open>start_calibration\<close> and the file is taken to stay in place while a device calibrates.
  Reading and writing these files is taken to succeed, apart from the failures that the
  \<open>stored\<close> type and the \<open>fit_result\<close> type below make explicit.
\<close>

datatype 'a stored = Missing | Corrupt | Content 'a

record files =
  state_file :: "string option stored"
  training_file :: "sample list"
  model_file :: "forest stored"
  scaler_file :: "scaler stored"
  calibration_file :: "stats stored"

text \<open>
  The attributes of a \<^verbatim>\<open>DeviceManager\<close>, together with the files of its device
  (\<open>disk\<close>), which no other device touches.
\<close>

record device =
  device_id :: string
  disk :: files
  state :: string
  calibration_start_time :: "real option"
  model :: "forest option"
  scaler :: "scaler option"
  baseline_stats :: stats
  score_mapping :: stats
  last_processed_ts :: "string option"
  sensor_buffer :: "sample list"
  health_history :: "real list"
  last_risk :: risk

text \<open>
  What a call does besides changing the device: \<open>Training df\<close> is the call
  \<^verbatim>\<open>train_model(df)\<close>, \<open>Gate b\<close> records the value that the local variable
  \<^verbatim>\<open>should_publish_mqtt\<close> has when \<^verbatim>\<open>last_risk\<close> is assigned, and \<open>Publish topic p\<close> is the
  call \<^verbatim>\<open>mqtt_client.publish\<close>. Of the payload only the device id, the risk and the time
  stamp are kept; the rounded health, the primary-issue text and the sensor report are
  formatted output that nothing below depends on.
\<close>

record payload =
  p_device_id :: string
  p_risk :: risk
  p_timestamp :: real

datatype effect = Training "sample list" | Gate bool | Publish string payload

text \<open>\<^verbatim>\<open>collections.deque(maxlen=n).append\<close>: the oldest entries fall out.\<close>

definition deque_append :: "nat \<Rightarrow> 'a list \<Rightarrow> 'a \<Rightarrow> 'a list" where
  "deque_append maxlen xs x = (let ys = xs @ [x] in drop (length ys - maxlen) ys)"

subsection \<open>Lifecycle state on disk\<close>

definition load_state :: "files \<Rightarrow> string" where
  "load_state fs =
     (case state_file fs of
        Content (Some s) \<Rightarrow> s
      | Content None \<Rightarrow> ''NEW''
      | _ \<Rightarrow>
          if model_file fs \<noteq> Missing \<and> scaler_file fs \<noteq> Missing then ''MONITORING''
          else ''NEW'')"

definition save_state :: "string \<Rightarrow> device \<Rightarrow> device" where
  "save_state new_state d =
     d\<lparr>state := new_state, disk := (disk d)\<lparr>state_file := Content (Some new_state)\<rparr>\<rparr>"

text \<open>
  \<^verbatim>\<open>load_artifacts\<close>: the three loads happen in order inside one \<^verbatim>\<open>try\<close>; the attributes
  assigned before a failing load keep their new values, and the handler saves NEW.
\<close>

definition load_artifacts :: "device \<Rightarrow> device" where
  "load_artifacts d =
     (case model_file (disk d) of
        Content m \<Rightarrow>
          (let d1 = d\<lparr>model := Some m\<rparr> in
           case scaler_file (disk d1) of
             Content sc \<Rightarrow>
               (let d2 = d1\<lparr>scaler := Some sc\<rparr> in
                case calibration_file (disk d2) of
                  Content st \<Rightarrow> d2\<lparr>score_mapping := st, baseline_stats := st\<rparr>
                | _ \<Rightarrow> save_state ''NEW'' d2)
           | _ \<Rightarrow> save_state ''NEW'' d1)
      | _ \<Rightarrow> save_state ''NEW'' d)"

text \<open>\<^verbatim>\<open>DeviceManager.__init__\<close>, given the device's files as found on disk.\<close>

definition DeviceManager :: "string \<Rightarrow> files \<Rightarrow> device" where
  "DeviceManager did fs =
     (let d = \<lparr>device_id = did, disk = fs, state = load_state fs,
                calibration_start_time = None, model = None, scaler = None,
                baseline_stats = empty_stats, score_mapping = empty_stats,
                last_processed_ts = None, sensor_buffer = [], health_history = [],
                last_risk = NORMAL\<rparr>
      in if state d = ''MONITORING'' then load_artifacts d else d)"

subsection \<open>Calibration\<close>

definition start_calibration :: "real \<Rightarrow> device \<Rightarrow> device" where
  "start_calibration now d =
     save_state ''CALIBRATING''
       (d\<lparr>disk := (disk d)\<lparr>training_file := []\<rparr>, calibration_start_time := Some now\<rparr>)"

definition append_training_data :: "sample \<Rightarrow> device \<Rightarrow> device" where
  "append_training_data row_dict d =
     d\<lparr>disk := (disk d)\<lparr>training_file := training_file (disk d) @ [row_dict]\<rparr>\<rparr>"

text \<open>
  Fitting is library code (scikit-learn) followed by writes of the artifacts. Its outcome on
  a data frame is a parameter of the model: the step at which the \<^verbatim>\<open>try\<close> block of
  \<^verbatim>\<open>train_model\<close> raised, with what had been written by then, or success with the scaler,
  the forest and the calibration statistics. \<open>StatsFailed\<close> is a failure while the
  statistics are computed or the calibration file is opened, which leaves an older
  calibration file as it was; \<open>StatsWriteFailed\<close> is a failure while the opened file is
  written, which leaves it unreadable.
\<close>

datatype fit_result =
    ScalerFailed
  | ForestFailed scaler
  | StatsFailed scaler forest
  | StatsWriteFailed scaler forest
  | Fitted scaler forest stats

definition train_model :: "(sample list \<Rightarrow> fit_result) \<Rightarrow> sample list \<Rightarrow> device \<Rightarrow> device" where
  "train_model fit df d =
     (case fit df of
        ScalerFailed \<Rightarrow> save_state ''NEW'' d
      | ForestFailed sc \<Rightarrow>
          save_state ''NEW'' (d\<lparr>disk := (disk d)\<lparr>scaler_file := Content sc\<rparr>\<rparr>)
      | StatsFailed sc m \<Rightarrow>
          save_state ''NEW''
            (d\<lparr>disk := (disk d)\<lparr>scaler_file := Content sc, model_file := Content m\<rparr>\<rparr>)
      | StatsWriteFailed sc m \<Rightarrow>
          save_state ''NEW''
            (d\<lparr>disk := (disk d)\<lparr>scaler_file := Content sc, model_file := Content m,
                                 calibration_file := Corrupt\<rparr>\<rparr>)
      | Fitted sc m st \<Rightarrow>
          d\<lparr>disk := (disk d)\<lparr>scaler_file := Content sc, model_file := Content m,
                               calibration_file := Content st\<rparr>\<rparr>)"

text \<open>
  \<^verbatim>\<open>elapsed = time.time() - (self.calibration_start_time or time.time())\<close>: a start time
  that is \<^verbatim>\<open>None\<close> (or the falsy \<^verbatim>\<open>0.0\<close>) gives an elapsed time of zero.
\<close>

definition elapsed :: "real \<Rightarrow> device \<Rightarrow> real" where
  "elapsed now d =
     now - (case calibration_start_time d of
              None \<Rightarrow> now
            | Some t \<Rightarrow> if t = 0 then now else t)"

definition handle_calibration ::
  "(sample list \<Rightarrow> fit_result) \<Rightarrow> real \<Rightarrow> sample \<Rightarrow> device \<Rightarrow> device \<times> effect list" where
  "handle_calibration fit now rd d =
     (let d1 = append_training_data rd d;
          df = training_file (disk d1);
          count = length df
      in if count \<ge> CALIBRATION_SAMPLES \<or> elapsed now d1 > MAX_CALIBRATION_TIME
         then (load_artifacts (save_state ''MONITORING'' (train_model fit df d1)), [Training df])
         else (d1, []))"

subsection \<open>Monitoring\<close>

text \<open>
  Step 2 of \<^verbatim>\<open>handle_monitoring\<close>: scale, score and map to a health percentage. Any
  exception (no scaler loaded, a failing library call, a missing calibration key) ends in
  the handler of the enclosing \<^verbatim>\<open>try\<close>, here \<open>None\<close>.
\<close>

definition scoring :: "forest \<Rightarrow> scaler option \<Rightarrow> stats \<Rightarrow> sample \<Rightarrow> real option" where
  "scoring m sc_opt mapping smoothed =
     (case sc_opt of
        None \<Rightarrow> None
      | Some sc \<Rightarrow>
          (case sc smoothed of
             None \<Rightarrow> None
           | Some scaled \<Rightarrow>
               (case m scaled of
                  None \<Rightarrow> None
                | Some raw_score \<Rightarrow>
                    (case map_health (anchors mapping) raw_score of
                       Inl e \<Rightarrow> None
                     | Inr health \<Rightarrow> Some health))))"

text \<open>Step 6 of \<^verbatim>\<open>handle_monitoring\<close>: the value computed for \<^verbatim>\<open>should_publish_mqtt\<close>.\<close>

definition should_publish_mqtt :: "real list \<Rightarrow> risk \<Rightarrow> risk \<Rightarrow> bool" where
  "should_publish_mqtt history rk prev =
     (let is_persistent_crit = (length history = 3 \<and> list_all (\<lambda>h. h < 50) history) in
      if rk = CRITICAL \<and> is_persistent_crit then True
      else if rk = WARNING \<and> prev \<noteq> WARNING then True
      else if rk = NORMAL \<and> prev \<noteq> NORMAL then True
      else False)"

text \<open>
  \<^verbatim>\<open>handle_monitoring\<close>. The sensor buffer has \<^verbatim>\<open>maxlen=1\<close>, so the column means of the
  buffer are the reading itself. \<^verbatim>\<open>analyze_sensor_contribution\<close> is called for a risk other
  than NORMAL before the publish decision is computed, and once more for the sensor report
  after \<^verbatim>\<open>last_risk\<close> is assigned; it raises when the baseline entries are missing, and the
  handler of the \<^verbatim>\<open>try\<close> then skips the rest. The publish call at the end of the
  \<^verbatim>\<open>try\<close> block is not guarded by \<^verbatim>\<open>should_publish_mqtt\<close>.
\<close>

definition handle_monitoring :: "real \<Rightarrow> sample \<Rightarrow> device \<Rightarrow> device \<times> effect list" where
  "handle_monitoring now rd d =
     (case model d of
        None \<Rightarrow> (d, [])
      | Some m \<Rightarrow>
          (let d1 = d\<lparr>sensor_buffer := deque_append 1 (sensor_buffer d) rd\<rparr> in
           case scoring m (scaler d1) (score_mapping d1) rd of
             None \<Rightarrow> (d1, [])
           | Some health \<Rightarrow>
               (let rk = risk_logic health;
                    d2 = d1\<lparr>health_history := deque_append 3 (health_history d1) health\<rparr>
                in if rk \<noteq> NORMAL \<and> \<not> has_baseline (baseline_stats d2) then (d2, [])
                   else
                     (let b = should_publish_mqtt (health_history d2) rk (last_risk d2);
                          d3 = d2\<lparr>last_risk := rk\<rparr>
                      in if \<not> has_baseline (baseline_stats d3) then (d3, [Gate b])
                         else (d3, [Gate b,
                                    Publish (''machine_guard/'' @ device_id d3 @ ''/status'')
                                      \<lparr>p_device_id = device_id d3, p_risk = rk,
                                       p_timestamp = now\<rparr>])))))"

subsection \<open>Routing a reading\<close>

definition mapped_reading :: "reading \<Rightarrow> sample" where
  "mapped_reading rd =
     (let get = (\<lambda>k. case entries rd k of None \<Rightarrow> 0 | Some v \<Rightarrow> v) in
      [(''temperature'', get ''temperature''), (''humidity'', get ''humidity''),
       (''gas'', get ''gas''), (''vibration'', get ''vibration''),
       (''current'', get ''power'')])"

definition process_reading ::
  "(sample list \<Rightarrow> fit_result) \<Rightarrow> real \<Rightarrow> reading \<Rightarrow> device \<Rightarrow> device \<times> effect list" where
  "process_reading fit now rd d =
     (if state d = ''NEW''
      then (append_training_data (mapped_reading rd) (start_calibration now d), [])
      else if state d = ''CALIBRATING'' then handle_calibration fit now (mapped_reading rd) d
      else if state d = ''MONITORING'' then handle_monitoring now (mapped_reading rd) d
      else (d, []))"

text \<open>
  A device that is sent a sequence of readings, each with the clock value at which it is
  processed.
\<close>

fun feed ::
  "(sample list \<Rightarrow> fit_result) \<Rightarrow> device \<Rightarrow> (real \<times> reading) list \<Rightarrow> device \<times> effect list" where
  "feed fit d [] = (d, [])"
| "feed fit d (x # rest) =
     (let r1 = process_reading fit (fst x) (snd x) d;
          r2 = feed fit (fst r1) rest
      in (fst r2, snd r1 @ snd r2))"

fun gates :: "effect list \<Rightarrow> bool list" where
  "gates [] = []"
| "gates (Gate b # es) = b # gates es"
| "gates (e # es) = gates es"

fun published :: "effect list \<Rightarrow> payload list" where
  "published [] = []"
| "published (Publish topic p # es) = p # published es"
| "published (e # es) = published es"

fun trainings :: "effect list \<Rightarrow> sample list list" where
  "trainings [] = []"
| "trainings (Training df # es) = df # trainings es"
| "trainings (e # es) = trainings es"

subsection \<open>The polling loop\<close>

text \<open>
  The body of the loop over \<^verbatim>\<open>data_tree.items()\<close> in \<^verbatim>\<open>MachineGuardSystem.run\<close>. An
  item of the polled tree is a dictionary or something else; \<open>models_dir\<close> gives the files
  found on disk for a device id when its manager is created.
\<close>

datatype item = NotDict | Dict reading

record system =
  devices :: "string \<rightharpoonup> device"
  models_dir :: "string \<Rightarrow> files"

definition run_body ::
  "(sample list \<Rightarrow> fit_result) \<Rightarrow> real \<Rightarrow> string \<Rightarrow> item \<Rightarrow> system \<Rightarrow> system \<times> effect list" where
  "run_body fit now did it sys =
     (case it of
        NotDict \<Rightarrow> (sys, [])
      | Dict rd \<Rightarrow>
          (let sys1 = (if devices sys did = None
                       then sys\<lparr>devices := (devices sys)(did \<mapsto> DeviceManager did (models_dir sys did))\<rparr>
                       else sys)
           in case devices sys1 did of
                None \<Rightarrow> (sys1, [])
              | Some dev \<Rightarrow>
                  (case timestamp rd of
                     None \<Rightarrow> (sys1, [])
                   | Some ts_str \<Rightarrow>
                       if ts_str = [] then (sys1, [])
                       else if last_processed_ts dev = Some ts_str then (sys1, [])
                       else
                         (let r = process_reading fit now rd (dev\<lparr>last_processed_ts := Some ts_str\<rparr>)
                          in (sys1\<lparr>devices := (devices sys1)(did \<mapsto> fst r)\<rparr>, snd r)))))"

section \<open>A concrete device\<close>

text \<open>
  A small installation used to evaluate the definitions: the scaler passes the feature
  values through, the forest returns the first of them (the temperature) as the raw score,
  and the calibration anchors are \<open>-1\<close> and \<open>1\<close>, so that a temperature \<open>t\<close> between
  \<open>-1\<close> and \<open>1\<close> maps to the health \<open>50 + 50 * t\<close>.
\<close>

definition ex_scaler :: scaler where
  "ex_scaler smoothed = Some (map snd smoothed)"

definition ex_forest :: forest where
  "ex_forest scaled = (case scaled of [] \<Rightarrow> None | v # _ \<Rightarrow> Some v)"

definition ex_stats :: stats where
  "ex_stats = \<lparr>anchors = [''min_anom'' \<mapsto> - 1, ''max_nice'' \<mapsto> 1], has_baseline = True\<rparr>"

definition ex_files :: files where
  "ex_files = \<lparr>state_file = Missing, training_file = [], model_file = Content ex_forest,
                scaler_file = Content ex_scaler, calibration_file = Content ex_stats\<rparr>"

definition ex_reading :: "real \<Rightarrow> reading" where
  "ex_reading t = \<lparr>entries = [''temperature'' \<mapsto> t], timestamp = Some ''2024-01-01T00:00:00''\<rparr>"

definition ex_monitoring :: device where
  "ex_monitoring =
     \<lparr>device_id = ''esp32'', disk = ex_files, state = ''MONITORING'',
      calibration_start_time = None, model = Some ex_forest, scaler = Some ex_scaler,
      baseline_stats = ex_stats, score_mapping = ex_stats, last_processed_ts = None,
      sensor_buffer = [], health_history = [], last_risk = NORMAL\<rparr>"

text \<open>
  A fit that succeeds with these artifacts, a device that has never been seen (no files),
  and a device in the middle of a calibration with \<open>n\<close> rows collected since time 1 whose
  directory still holds loadable artifacts of an earlier training.
\<close>

definition ex_fit :: "sample list \<Rightarrow> fit_result" where
  "ex_fit df = Fitted ex_scaler ex_forest ex_stats"

definition ex_new :: device where
  "ex_new = DeviceManager ''esp32''
     \<lparr>state_file = Missing, training_file = [], model_file = Missing,
      scaler_file = Missing, calibration_file = Missing\<rparr>"

definition ex_calibrating :: "nat \<Rightarrow> device" where
  "ex_calibrating n =
     \<lparr>device_id = ''esp32'',
      disk = ex_files\<lparr>state_file := Content (Some ''CALIBRATING''),
                       training_file := replicate n (mapped_reading (ex_reading 0))\<rparr>,
      state = ''CALIBRATING'', calibration_start_time = Some 1, model = None, scaler = None,
      baseline_stats = empty_stats, score_mapping = empty_stats, last_processed_ts = None,
      sensor_buffer = [], health_history = [], last_risk = NORMAL\<rparr>"

text \<open>A hundred readings, all processed at time 1.\<close>

definition ex_batch :: "(real \<times> reading) list" where
  "ex_batch = replicate 100 (1, ex_reading 0)"

text \<open>A system that has seen no device yet, over a directory holding the artifacts above.\<close>

definition ex_system :: system where
  "ex_system = \<lparr>devices = Map.empty, models_dir = (\<lambda>did. ex_files)\<rparr>"

text \<open>
  A device that began calibrating at time 1 and whose manager is then built again from its
  files, as happens when the process is restarted.
\<close>

definition ex_resumed :: device where
  "ex_resumed =
     DeviceManager ''esp32'' (disk (fst (process_reading ex_fit 1 (ex_reading 0) ex_new)))"

text \<open>Whether a stored artifact can be loaded.\<close>

definition loadable :: "'a stored \<Rightarrow> bool" where
  "loadable f = (case f of Content c \<Rightarrow> True | _ \<Rightarrow> False)"

section \<open>Properties of the risk classification\<close>

lemma ex_scoring:
  "scoring ex_forest (Some ex_scaler) ex_stats (mapped_reading (ex_reading t)) =
     Some (np_interp t [- 1, 0, 1] [0, 50, 100])"
  by (simp add: scoring_def ex_scaler_def ex_forest_def ex_stats_def mapped_reading_def
      ex_reading_def map_health_def)

lemma ex_has_baseline: "has_baseline ex_stats"
  by (simp add: ex_stats_def)

lemma np_interp_three:
  "np_interp x [lo, 0, hi] [0, 50, 100] =
     (if x > hi then 100
      else if x < lo then 0
      else if x < 0 then (if lo = x then 0 else 50 / (0 - lo) * (x - lo))
      else if x < hi then (if x = 0 then 50 else 50 / hi * x + 50)
      else 100)"
  by (simp add: np_interp_def binary_search_with_guess_def Let_def)

text \<open>
  C1 (as amended). The stand-alone classifier \<open>classify_risk\<close> has the thresholds 80 and 50
  with the stated boundaries: NORMAL iff the health is above 80, WARNING iff it is above 50
  and at most 80, CRITICAL iff it is at most 50. The monitoring path of the device manager
  does not call it: the risk it computes, compares and publishes is \<open>risk_logic\<close>, which is
  CRITICAL iff the health is below 30, WARNING iff it is at least 30 and below 60, and
  NORMAL iff it is at least 60; every payload published for a reading carries that risk.
\<close>

theorem risk_thresholds:
  "(classify_risk h = NORMAL \<longleftrightarrow> h > 80)
   \<and> (classify_risk h = WARNING \<longleftrightarrow> 50 < h \<and> h \<le> 80)
   \<and> (classify_risk h = CRITICAL \<longleftrightarrow> h \<le> 50)
   \<and> (risk_logic h = NORMAL \<longleftrightarrow> 60 \<le> h)
   \<and> (risk_logic h = WARNING \<longleftrightarrow> 30 \<le> h \<and> h < 60)
   \<and> (risk_logic h = CRITICAL \<longleftrightarrow> h < 30)
   \<and> (model d = Some m \<and> scoring m (scaler d) (score_mapping d) rd = Some h
        \<longrightarrow> list_all (\<lambda>p. p_risk p = risk_logic h) (published (snd (handle_monitoring now rd d))))"
  by (simp add: classify_risk_def risk_logic_def handle_monitoring_def Let_def)

theorem risk_thresholds_witness:
  "classify_risk 50 = CRITICAL \<and> classify_risk 80 = WARNING
   \<and> published (snd (handle_monitoring 1 (mapped_reading (ex_reading (2 / 5))) ex_monitoring))
       = [\<lparr>p_device_id = ''esp32'', p_risk = NORMAL, p_timestamp = 1\<rparr>]"
proof -
  have m: "model ex_monitoring = Some ex_forest"
    by (simp add: ex_monitoring_def)
  have "scoring ex_forest (scaler ex_monitoring) (score_mapping ex_monitoring)
          (mapped_reading (ex_reading (2 / 5))) = Some 70"
    by (simp add: ex_monitoring_def ex_scoring np_interp_three)
  with m risk_thresholds [of 70 ex_monitoring ex_forest "mapped_reading (ex_reading (2 / 5))" 1]
    risk_thresholds [of 50] risk_thresholds [of 80]
  show ?thesis
    by (simp add: handle_monitoring_def Let_def ex_monitoring_def ex_has_baseline risk_logic_def)
qed

theorem monitoring_risk_counterexample:
  "scoring ex_forest (scaler ex_monitoring) (score_mapping ex_monitoring)
     (mapped_reading (ex_reading (2 / 5))) = Some 70
   \<and> classify_risk 70 = WARNING
   \<and> map p_risk (published (snd (handle_monitoring 1 (mapped_reading (ex_reading (2 / 5)))
        ex_monitoring))) = [NORMAL]"
proof -
  have sc: "scoring ex_forest (Some ex_scaler) ex_stats (mapped_reading (ex_reading (2 / 5)))
      = Some 70"
    by (simp add: ex_scoring np_interp_three)
  show ?thesis
    by (simp add: ex_monitoring_def sc classify_risk_def handle_monitoring_def Let_def
        ex_has_baseline risk_logic_def)
qed

section \<open>Properties of the health mapping\<close>

lemma low_segment:
  "lo \<le> x \<Longrightarrow> x < 0 \<Longrightarrow> 0 \<le> 50 / (0 - lo) * (x - lo) \<and> 50 / (0 - lo) * (x - lo) < (50::real)"
  by (simp add: field_simps)

lemma high_segment:
  "0 \<le> x \<Longrightarrow> x < hi \<Longrightarrow> 50 \<le> 50 / hi * x + 50 \<and> 50 / hi * x + 50 < (100::real)"
  by (simp add: field_simps)

lemma low_segment_mono:
  "lo \<le> x1 \<Longrightarrow> x1 \<le> x2 \<Longrightarrow> x2 < 0 \<Longrightarrow>
     50 / (0 - lo) * (x1 - lo) \<le> 50 / (0 - lo) * (x2 - (lo::real))"
  by (simp add: field_simps)

lemma high_segment_mono:
  "0 \<le> x1 \<Longrightarrow> x1 \<le> x2 \<Longrightarrow> x2 < hi \<Longrightarrow> 50 / hi * x1 + 50 \<le> 50 / hi * x2 + (50::real)"
  by (simp add: field_simps)

lemma np_interp_three_range:
  "lo \<le> 0 \<Longrightarrow> 0 \<le> hi \<Longrightarrow>
     0 \<le> np_interp x [lo, 0, hi] [0, 50, 100] \<and> np_interp x [lo, 0, hi] [0, 50, 100] \<le> 100"
  using low_segment [of lo x] high_segment [of x hi] by (auto simp: np_interp_three)

lemma np_interp_three_mono:
  assumes "lo \<le> 0" "0 \<le> hi" "x1 \<le> x2"
  shows "np_interp x1 [lo, 0, hi] [0, 50, 100] \<le> np_interp x2 [lo, 0, hi] [0, 50, 100]"
proof -
  define f where "f = (\<lambda>x. 50 / (0 - lo) * (x - lo))"
  define g where "g = (\<lambda>x. 50 / hi * x + 50)"
  have below: "lo \<le> x \<Longrightarrow> x < 0 \<Longrightarrow> 0 \<le> f x \<and> f x < 50" for x
    unfolding f_def by (rule low_segment)
  have above: "0 \<le> x \<Longrightarrow> x < hi \<Longrightarrow> 50 \<le> g x \<and> g x < 100" for x
    unfolding g_def by (rule high_segment)
  have fm: "lo \<le> x1 \<Longrightarrow> x2 < 0 \<Longrightarrow> f x1 \<le> f x2"
    unfolding f_def using assms(3) low_segment_mono [of lo x1 x2] by simp
  have gm: "0 \<le> x1 \<Longrightarrow> x2 < hi \<Longrightarrow> g x1 \<le> g x2"
    unfolding g_def using assms(3) high_segment_mono [of x1 x2 hi] by simp
  have eq: "np_interp x [lo, 0, hi] [0, 50, 100] =
      (if x > hi then 100
       else if x < lo then 0
       else if x < 0 then (if lo = x then 0 else f x)
       else if x < hi then (if x = 0 then 50 else g x)
       else 100)" for x
    unfolding f_def g_def by (rule np_interp_three)
  show ?thesis
    unfolding eq using assms below [of x1] below [of x2] above [of x1] above [of x2] fm gm
    by (auto split: if_splits)
qed

lemma np_interp_three_degenerate:
  "hi \<le> lo \<Longrightarrow>
     np_interp x [lo, 0, hi] [0, 50, 100] =
       (if hi < x \<or> (x = hi \<and> hi = lo \<and> 0 \<le> hi) then 100 else 0)"
  by (auto simp: np_interp_three)

lemma map_health_anchors:
  "sm ''min_anom'' = Some lo \<Longrightarrow> sm ''max_nice'' = Some hi \<Longrightarrow>
     map_health sm x = Inr (np_interp x [lo, 0, hi] [0, 50, 100])"
  by (simp add: map_health_def)

text \<open>
  C2 (as amended). For a calibration with \<open>lo \<le> 0 \<le> hi\<close> the health is the three-point
  interpolation through \<open>(lo, 0)\<close>, \<open>(0, 50)\<close> and \<open>(hi, 100)\<close>: it is 0 below \<open>lo\<close>, 100
  at and above \<open>hi\<close>, linear on each of the two segments, always within 0 and 100, and
  non-decreasing in the raw score. The health at \<open>lo\<close> is 0 when \<open>lo < 0\<close> and the health
  at 0 is 50 when \<open>0 < hi\<close>; when an anchor coincides with 0 these two values cannot
  both be asked for.
\<close>

theorem map_health_interpolation:
  assumes "sm ''min_anom'' = Some lo" and "sm ''max_nice'' = Some hi"
    and "lo \<le> 0" and "0 \<le> hi"
  shows "(lo < 0 \<longrightarrow> map_health sm lo = Inr 0)
       \<and> (0 < hi \<longrightarrow> map_health sm 0 = Inr 50)
       \<and> map_health sm hi = Inr 100
       \<and> (x < lo \<longrightarrow> map_health sm x = Inr 0)
       \<and> (hi < x \<longrightarrow> map_health sm x = Inr 100)
       \<and> (lo \<le> x \<and> x < 0 \<longrightarrow> map_health sm x = Inr (50 * (x - lo) / (0 - lo)))
       \<and> (0 \<le> x \<and> x < hi \<longrightarrow> map_health sm x = Inr (50 + 50 * x / hi))
       \<and> (\<exists>h. map_health sm x = Inr h \<and> 0 \<le> h \<and> h \<le> 100)
       \<and> (x1 < x2 \<longrightarrow> (\<exists>h1 h2. map_health sm x1 = Inr h1 \<and> map_health sm x2 = Inr h2
                                 \<and> h1 \<le> h2))"
proof -
  note mh = map_health_anchors [OF assms(1,2)]
  have "lo < 0 \<longrightarrow> map_health sm lo = Inr 0"
    using assms(3,4) by (simp add: mh np_interp_three)
  moreover have "0 < hi \<longrightarrow> map_health sm 0 = Inr 50"
    using assms(3,4) by (simp add: mh np_interp_three)
  moreover have "map_health sm hi = Inr 100"
    using assms(3,4) by (simp add: mh np_interp_three)
  moreover have "x < lo \<longrightarrow> map_health sm x = Inr 0"
    using assms(3,4) by (simp add: mh np_interp_three)
  moreover have "hi < x \<longrightarrow> map_health sm x = Inr 100"
    by (simp add: mh np_interp_three)
  moreover have "lo \<le> x \<and> x < 0 \<longrightarrow> map_health sm x = Inr (50 * (x - lo) / (0 - lo))"
    using assms(3,4) by (auto simp: mh np_interp_three)
  moreover have "0 \<le> x \<and> x < hi \<longrightarrow> map_health sm x = Inr (50 + 50 * x / hi)"
    using assms(3,4) by (auto simp: mh np_interp_three)
  moreover have "\<exists>h. map_health sm x = Inr h \<and> 0 \<le> h \<and> h \<le> 100"
    using np_interp_three_range [OF assms(3,4), of x] by (simp add: mh)
  moreover have "x1 < x2 \<longrightarrow> (\<exists>h1 h2. map_health sm x1 = Inr h1 \<and> map_health sm x2 = Inr h2
      \<and> h1 \<le> h2)"
    using np_interp_three_mono [OF assms(3,4), of x1 x2] by (simp add: mh)
  ultimately show ?thesis by blast
qed

theorem map_health_interpolation_witness:
  "map_health (anchors ex_stats) (- 1) = Inr 0
   \<and> map_health (anchors ex_stats) 0 = Inr 50
   \<and> map_health (anchors ex_stats) 1 = Inr 100
   \<and> map_health (anchors ex_stats) (- 2) = Inr 0
   \<and> map_health (anchors ex_stats) 2 = Inr 100
   \<and> map_health (anchors ex_stats) (- 1 / 2) = Inr 25
   \<and> map_health (anchors ex_stats) (1 / 2) = Inr 75"
proof -
  have lo: "anchors ex_stats ''min_anom'' = Some (- 1)"
    and hi: "anchors ex_stats ''max_nice'' = Some 1"
    by (simp_all add: ex_stats_def)
  have b: "(- 1::real) \<le> 0" "(0::real) \<le> 1" by simp_all
  show ?thesis
    using map_health_interpolation [OF lo hi b, of "- 2" "- 1 / 2" "1 / 2"]
      map_health_interpolation [OF lo hi b, of 2]
      map_health_interpolation [OF lo hi b, of "- 1 / 2"]
      map_health_interpolation [OF lo hi b, of "1 / 2"]
    by simp
qed

theorem map_health_anchor_counterexample:
  "(0::real) \<le> 0 \<and> (0::real) \<le> 1
   \<and> map_health [''min_anom'' \<mapsto> 0, ''max_nice'' \<mapsto> 1] 0 = Inr 50
   \<and> map_health [''min_anom'' \<mapsto> 0, ''max_nice'' \<mapsto> 1] 0 \<noteq> Inr 0"
  by (simp add: map_health_def np_interp_three)

text \<open>
  C9. For a degenerate calibration with \<open>hi \<le> lo\<close> the lookup raises nothing and the
  health is clamped: it is 0 or 100, hence within 0 and 100, and it is non-decreasing in
  the raw score.
\<close>

theorem map_health_degenerate:
  assumes "sm ''min_anom'' = Some lo" and "sm ''max_nice'' = Some hi" and "hi \<le> lo"
  shows "(map_health sm x = Inr 0 \<or> map_health sm x = Inr 100)
       \<and> (\<exists>h. map_health sm x = Inr h \<and> 0 \<le> h \<and> h \<le> 100)
       \<and> (x1 < x2 \<longrightarrow> (\<exists>h1 h2. map_health sm x1 = Inr h1 \<and> map_health sm x2 = Inr h2
                                 \<and> h1 \<le> h2))"
  using assms(3)
  by (simp add: map_health_anchors [OF assms(1,2)] np_interp_three_degenerate)

theorem map_health_degenerate_witness:
  "map_health [''min_anom'' \<mapsto> 1, ''max_nice'' \<mapsto> - 1] (- 2) = Inr 0
   \<and> map_health [''min_anom'' \<mapsto> 1, ''max_nice'' \<mapsto> - 1] (1 / 2) = Inr 100"
proof -
  have lo: "[''min_anom'' \<mapsto> 1, ''max_nice'' \<mapsto> - 1] ''min_anom'' = Some (1::real)"
    and hi: "[''min_anom'' \<mapsto> 1, ''max_nice'' \<mapsto> - 1] ''max_nice'' = Some (- 1::real)"
    by simp_all
  have b: "(- 1::real) \<le> 1" by simp
  show ?thesis
    using map_health_degenerate [OF lo hi b, of "- 2" "- 2" "1 / 2"]
      map_health_degenerate [OF lo hi b, of "1 / 2"]
    by (simp add: map_health_def np_interp_three)
qed

section \<open>Properties of the alert gate\<close>

lemma deque_append_three: "deque_append 3 xs a = drop (length xs - 2) xs @ [a]"
  by (simp add: deque_append_def Let_def)

lemma deque_append_thrice:
  "deque_append 3 (deque_append 3 (deque_append 3 xs a) b) c = [a, b, c]"
  by (simp add: deque_append_three)

lemma handle_monitoring_scored:
  assumes "model d = Some m"
    and "scoring m (scaler d) (score_mapping d) rd = Some h"
    and "has_baseline (baseline_stats d)"
  shows "handle_monitoring now rd d =
     (d\<lparr>sensor_buffer := deque_append 1 (sensor_buffer d) rd,
        health_history := deque_append 3 (health_history d) h,
        last_risk := risk_logic h\<rparr>,
      [Gate (should_publish_mqtt (deque_append 3 (health_history d) h) (risk_logic h) (last_risk d)),
       Publish (''machine_guard/'' @ device_id d @ ''/status'')
         \<lparr>p_device_id = device_id d, p_risk = risk_logic h, p_timestamp = now\<rparr>])"
  using assms by (simp add: handle_monitoring_def Let_def)

lemma should_publish_critical:
  "should_publish_mqtt hist CRITICAL prev \<longleftrightarrow> length hist = 3 \<and> list_all (\<lambda>h. h < 50) hist"
  by (simp add: should_publish_mqtt_def)

lemma should_publish_warning:
  "should_publish_mqtt hist WARNING prev \<longleftrightarrow> prev \<noteq> WARNING"
  by (simp add: should_publish_mqtt_def)

lemma should_publish_normal:
  "should_publish_mqtt hist NORMAL prev \<longleftrightarrow> prev \<noteq> NORMAL"
  by (simp add: should_publish_mqtt_def)

lemma feed_three_monitoring:
  assumes st: "state d = ''MONITORING''" and m: "model d = Some m"
    and b: "has_baseline (baseline_stats d)"
    and s1: "scoring m (scaler d) (score_mapping d) (mapped_reading r1) = Some h1"
    and s2: "scoring m (scaler d) (score_mapping d) (mapped_reading r2) = Some h2"
    and s3: "scoring m (scaler d) (score_mapping d) (mapped_reading r3) = Some h3"
  shows "gates (snd (feed fit d [(t1, r1), (t2, r2), (t3, r3)])) =
     [should_publish_mqtt (deque_append 3 (health_history d) h1) (risk_logic h1) (last_risk d),
      should_publish_mqtt (deque_append 3 (deque_append 3 (health_history d) h1) h2)
        (risk_logic h2) (risk_logic h1),
      should_publish_mqtt [h1, h2, h3] (risk_logic h3) (risk_logic h2)]"
proof -
  define d1 where "d1 = fst (process_reading fit t1 r1 d)"
  define d2 where "d2 = fst (process_reading fit t2 r2 d1)"
  have p1: "process_reading fit t1 r1 d = handle_monitoring t1 (mapped_reading r1) d"
    using st by (simp add: process_reading_def)
  note e1 = handle_monitoring_scored [OF m s1 b, of t1]
  have d1: "state d1 = ''MONITORING''" "model d1 = Some m" "has_baseline (baseline_stats d1)"
    "scaler d1 = scaler d" "score_mapping d1 = score_mapping d" "last_risk d1 = risk_logic h1"
    "health_history d1 = deque_append 3 (health_history d) h1"
    using st m b by (simp_all add: d1_def p1 e1)
  have p2: "process_reading fit t2 r2 d1 = handle_monitoring t2 (mapped_reading r2) d1"
    using d1(1) by (simp add: process_reading_def)
  have s2': "scoring m (scaler d1) (score_mapping d1) (mapped_reading r2) = Some h2"
    using s2 d1 by simp
  note e2 = handle_monitoring_scored [OF d1(2) s2' d1(3), of t2]
  have d2: "state d2 = ''MONITORING''" "model d2 = Some m" "has_baseline (baseline_stats d2)"
    "scaler d2 = scaler d" "score_mapping d2 = score_mapping d" "last_risk d2 = risk_logic h2"
    "health_history d2 = deque_append 3 (deque_append 3 (health_history d) h1) h2"
    using d1 by (simp_all add: d2_def p2 e2)
  have p3: "process_reading fit t3 r3 d2 = handle_monitoring t3 (mapped_reading r3) d2"
    using d2(1) by (simp add: process_reading_def)
  have s3': "scoring m (scaler d2) (score_mapping d2) (mapped_reading r3) = Some h3"
    using s3 d2 by simp
  note e3 = handle_monitoring_scored [OF d2(2) s3' d2(3), of t3]
  have g1: "gates (snd (process_reading fit t1 r1 d)) =
      [should_publish_mqtt (deque_append 3 (health_history d) h1) (risk_logic h1) (last_risk d)]"
    by (simp add: p1 e1)
  have g2: "gates (snd (process_reading fit t2 r2 d1)) =
      [should_publish_mqtt (deque_append 3 (deque_append 3 (health_history d) h1) h2)
        (risk_logic h2) (risk_logic h1)]"
    by (simp add: p2 e2 d1)
  have g3: "gates (snd (process_reading fit t3 r3 d2)) =
      [should_publish_mqtt [h1, h2, h3] (risk_logic h3) (risk_logic h2)]"
    by (simp add: p3 e3 d2 deque_append_thrice)
  have ga: "gates (xs @ ys) = gates xs @ gates ys" for xs ys
    by (induction xs rule: gates.induct) simp_all
  show ?thesis
    using g1 g2 g3 by (simp add: Let_def ga d1_def [symmetric] d2_def [symmetric])
qed


lemma ex_monitoring_fields:
  "state ex_monitoring = ''MONITORING''" "model ex_monitoring = Some ex_forest"
  "scaler ex_monitoring = Some ex_scaler" "score_mapping ex_monitoring = ex_stats"
  "has_baseline (baseline_stats ex_monitoring)" "health_history ex_monitoring = []"
  "last_risk ex_monitoring = NORMAL" "device_id ex_monitoring = ''esp32''"
  by (simp_all add: ex_monitoring_def ex_has_baseline)

lemma ex_health:
  "scoring ex_forest (scaler ex_monitoring) (score_mapping ex_monitoring)
     (mapped_reading (ex_reading t)) = Some (np_interp t [- 1, 0, 1] [0, 50, 100])"
  by (simp add: ex_monitoring_fields ex_scoring)

text \<open>
  C3 (as amended). In MONITORING, when three consecutive readings all map to a health
  below 30 (the range that the monitoring path classifies as CRITICAL) and the health
  history before them is empty or ends in a value of at least 50, the publish decision is
  false on the first and on the second reading and true on the third. For a CRITICAL
  reading the decision is true exactly when the three-slot history is full and every
  value in it is below 50.
\<close>

theorem persistent_critical_third:
  assumes "state d = ''MONITORING''" and "model d = Some m"
    and "has_baseline (baseline_stats d)"
    and "scoring m (scaler d) (score_mapping d) (mapped_reading r1) = Some h1"
    and "scoring m (scaler d) (score_mapping d) (mapped_reading r2) = Some h2"
    and "scoring m (scaler d) (score_mapping d) (mapped_reading r3) = Some h3"
    and "h1 < 30" and "h2 < 30" and "h3 < 30"
    and "health_history d = [] \<or> 50 \<le> last (health_history d)"
  shows "gates (snd (feed fit d [(t1, r1), (t2, r2), (t3, r3)])) = [False, False, True]
       \<and> (should_publish_mqtt hist CRITICAL prev
            \<longleftrightarrow> length hist = 3 \<and> list_all (\<lambda>h. h < 50) hist)"
proof -
  have rk: "risk_logic h1 = CRITICAL" "risk_logic h2 = CRITICAL" "risk_logic h3 = CRITICAL"
    using assms(7-9) by (simp_all add: risk_logic_def)
  have first: "\<not> (length (deque_append 3 (health_history d) h1) = 3
      \<and> list_all (\<lambda>h. h < 50) (deque_append 3 (health_history d) h1))"
  proof (cases "health_history d" rule: rev_cases)
    case Nil
    then show ?thesis by (simp add: deque_append_three)
  next
    case (snoc ys y)
    with assms(10) have "50 \<le> y" by simp
    then show ?thesis using snoc by (simp add: deque_append_three)
  qed
  have second: "\<not> (length (deque_append 3 (deque_append 3 (health_history d) h1) h2) = 3
      \<and> list_all (\<lambda>h. h < 50) (deque_append 3 (deque_append 3 (health_history d) h1) h2))"
  proof (cases "health_history d" rule: rev_cases)
    case Nil
    then show ?thesis by (simp add: deque_append_three)
  next
    case (snoc ys y)
    with assms(10) have "50 \<le> y" by simp
    then show ?thesis using snoc by (cases ys rule: rev_cases) (simp_all add: deque_append_three)
  qed
  have third: "list_all (\<lambda>h. h < 50) [h1, h2, h3]"
    using assms(7-9) by simp
  show ?thesis
    unfolding feed_three_monitoring [OF assms(1-6)]
    using first second third by (simp add: rk should_publish_critical)
qed

theorem persistent_critical_third_witness:
  "gates (snd (feed (\<lambda>df. ScalerFailed) ex_monitoring
     [(1, ex_reading (- 3 / 5)), (2, ex_reading (- 3 / 5)), (3, ex_reading (- 3 / 5))]))
   = [False, False, True]"
proof -
  have h: "scoring ex_forest (scaler ex_monitoring) (score_mapping ex_monitoring)
      (mapped_reading (ex_reading (- 3 / 5))) = Some 20"
    by (simp add: ex_health np_interp_three)
  have lt: "(20::real) < 30" by simp
  have hist: "health_history ex_monitoring = [] \<or> 50 \<le> last (health_history ex_monitoring)"
    by (simp add: ex_monitoring_fields)
  show ?thesis
    using persistent_critical_third [OF ex_monitoring_fields(1,2,5) h h h lt lt lt hist]
    by simp
qed

theorem persistent_critical_counterexample:
  "scoring ex_forest (scaler ex_monitoring) (score_mapping ex_monitoring)
     (mapped_reading (ex_reading (- 1 / 5))) = Some 40
   \<and> (40::real) < 50
   \<and> gates (snd (feed (\<lambda>df. ScalerFailed) ex_monitoring
       [(1, ex_reading (- 1 / 5)), (2, ex_reading (- 1 / 5)), (3, ex_reading (- 1 / 5))]))
     = [True, False, False]"
proof -
  have h: "scoring ex_forest (scaler ex_monitoring) (score_mapping ex_monitoring)
      (mapped_reading (ex_reading (- 1 / 5))) = Some 40"
    by (simp add: ex_health np_interp_three)
  show ?thesis
    unfolding feed_three_monitoring [OF ex_monitoring_fields(1,2,5) h h h]
    using h by (simp add: ex_monitoring_fields risk_logic_def should_publish_warning)
qed

text \<open>
  C4 (as amended). For a MONITORING reading nothing is published when no model is loaded
  or when scoring raises. When the reading is scored, exactly one payload is published
  with the risk of that reading, whatever the alert-gate rules decide, provided the
  baseline statistics needed for the sensor report are present; the gate's decision does
  not suppress the payload.
\<close>

theorem publish_not_gated:
  assumes "state d = ''MONITORING''"
  shows "(model d = None \<longrightarrow> snd (process_reading fit now rd d) = [])
       \<and> (model d = Some m \<and> scoring m (scaler d) (score_mapping d) (mapped_reading rd) = None
            \<longrightarrow> snd (process_reading fit now rd d) = [])
       \<and> (model d = Some m \<and> scoring m (scaler d) (score_mapping d) (mapped_reading rd) = Some h
            \<longrightarrow> published (snd (process_reading fit now rd d)) =
                 (if has_baseline (baseline_stats d)
                  then [\<lparr>p_device_id = device_id d, p_risk = risk_logic h, p_timestamp = now\<rparr>]
                  else []))"
  using assms by (simp add: process_reading_def handle_monitoring_def Let_def)

theorem publish_not_gated_witness:
  "published (snd (process_reading (\<lambda>df. ScalerFailed) 7 (ex_reading (- 3 / 5)) ex_monitoring))
     = [\<lparr>p_device_id = ''esp32'', p_risk = CRITICAL, p_timestamp = 7\<rparr>]
   \<and> snd (process_reading (\<lambda>df. ScalerFailed) 7 (ex_reading 0)
        (ex_monitoring\<lparr>model := None\<rparr>)) = []
   \<and> snd (process_reading (\<lambda>df. ScalerFailed) 7 (ex_reading 0)
        (ex_monitoring\<lparr>scaler := None\<rparr>)) = []"
proof -
  have h: "scoring ex_forest (scaler ex_monitoring) (score_mapping ex_monitoring)
      (mapped_reading (ex_reading (- 3 / 5))) = Some 20"
    by (simp add: ex_health np_interp_three)
  have st: "state (ex_monitoring\<lparr>model := None\<rparr>) = ''MONITORING''"
    "state (ex_monitoring\<lparr>scaler := None\<rparr>) = ''MONITORING''"
    by (simp_all add: ex_monitoring_fields)
  have n: "scoring ex_forest (scaler (ex_monitoring\<lparr>scaler := None\<rparr>))
      (score_mapping (ex_monitoring\<lparr>scaler := None\<rparr>)) (mapped_reading (ex_reading 0)) = None"
    by (simp add: scoring_def)
  show ?thesis
    using publish_not_gated [OF ex_monitoring_fields(1), where m = ex_forest
          and rd = "ex_reading (- 3 / 5)" and h = 20 and fit = "\<lambda>df. ScalerFailed" and now = 7]
      publish_not_gated [OF st(1), where fit = "\<lambda>df. ScalerFailed" and now = 7
          and rd = "ex_reading 0"]
      publish_not_gated [OF st(2), where fit = "\<lambda>df. ScalerFailed" and now = 7
          and rd = "ex_reading 0" and m = ex_forest]
      h n
    by (simp add: ex_monitoring_fields risk_logic_def)
qed

theorem publish_suppressed_counterexample:
  "snd (process_reading (\<lambda>df. ScalerFailed) 7 (ex_reading 1) ex_monitoring) =
     [Gate False,
      Publish ''machine_guard/esp32/status''
        \<lparr>p_device_id = ''esp32'', p_risk = NORMAL, p_timestamp = 7\<rparr>]"
proof -
  have h: "scoring ex_forest (scaler ex_monitoring) (score_mapping ex_monitoring)
      (mapped_reading (ex_reading 1)) = Some 100"
    by (simp add: ex_health np_interp_three)
  show ?thesis
    by (simp add: process_reading_def ex_monitoring_fields
        handle_monitoring_scored [OF ex_monitoring_fields(2) h ex_monitoring_fields(5)]
        risk_logic_def should_publish_normal)
qed

text \<open>
  C8. For a WARNING classification the publish decision is true iff the previously recorded
  risk was not WARNING; \<open>last_risk\<close> is set to the risk of the reading whether or not the
  decision is true; hence over three consecutive WARNING readings only the first decision
  can be true (it is, when the risk recorded before the run was not WARNING), and the
  second and third are false.
\<close>

theorem warning_edge:
  assumes "state d = ''MONITORING''" and "model d = Some m"
    and "has_baseline (baseline_stats d)"
    and "scoring m (scaler d) (score_mapping d) (mapped_reading r1) = Some h1"
    and "scoring m (scaler d) (score_mapping d) (mapped_reading r2) = Some h2"
    and "scoring m (scaler d) (score_mapping d) (mapped_reading r3) = Some h3"
  shows "(should_publish_mqtt hist WARNING prev \<longleftrightarrow> prev \<noteq> WARNING)
       \<and> last_risk (fst (process_reading fit t1 r1 d)) = risk_logic h1
       \<and> (risk_logic h1 = WARNING \<and> risk_logic h2 = WARNING \<and> risk_logic h3 = WARNING
            \<longrightarrow> gates (snd (feed fit d [(t1, r1), (t2, r2), (t3, r3)]))
                  = [last_risk d \<noteq> WARNING, False, False])"
proof -
  have "last_risk (fst (process_reading fit t1 r1 d)) = risk_logic h1"
    using assms(1) by (simp add: process_reading_def handle_monitoring_scored [OF assms(2,4,3)])
  then show ?thesis
    unfolding feed_three_monitoring [OF assms]
    by (simp add: should_publish_warning)
qed

theorem warning_edge_witness:
  "gates (snd (feed (\<lambda>df. ScalerFailed) ex_monitoring
     [(1, ex_reading (- 1 / 5)), (2, ex_reading (- 1 / 5)), (3, ex_reading (- 1 / 5))]))
   = [True, False, False]
   \<and> last_risk (fst (process_reading (\<lambda>df. ScalerFailed) 1 (ex_reading (- 1 / 5)) ex_monitoring))
     = WARNING"
proof -
  have h: "scoring ex_forest (scaler ex_monitoring) (score_mapping ex_monitoring)
      (mapped_reading (ex_reading (- 1 / 5))) = Some 40"
    by (simp add: ex_health np_interp_three)
  have rk: "risk_logic 40 = WARNING" by (simp add: risk_logic_def)
  show ?thesis
    using warning_edge [OF ex_monitoring_fields(1,2,5) h h h, where fit = "\<lambda>df. ScalerFailed"
        and ?t1.0 = 1 and ?t2.0 = 2 and ?t3.0 = 3] rk
    by (simp add: ex_monitoring_fields)
qed

section \<open>Properties of calibration\<close>

lemma feed_append:
  "feed fit d (xs @ ys) =
     (fst (feed fit (fst (feed fit d xs)) ys), snd (feed fit d xs) @ snd (feed fit (fst (feed fit d xs)) ys))"
  by (induction xs arbitrary: d) (simp_all add: Let_def)

lemma elapsed_append [simp]: "elapsed now (append_training_data row d) = elapsed now d"
  by (simp add: elapsed_def append_training_data_def)

lemma elapsed_disk [simp]: "elapsed now (d\<lparr>disk := fs\<rparr>) = elapsed now d"
  by (simp add: elapsed_def)

lemma handle_calibration_continue:
  assumes "length (training_file (disk d)) + 1 < 100" and "elapsed now d \<le> 300"
  shows "handle_calibration fit now row d = (append_training_data row d, [])"
  using assms
  by (simp add: handle_calibration_def Let_def CALIBRATION_SAMPLES_def MAX_CALIBRATION_TIME_def
      append_training_data_def)

lemma handle_calibration_train:
  assumes "100 \<le> length (training_file (disk d)) + 1 \<or> 300 < elapsed now d"
  shows "handle_calibration fit now row d =
     (load_artifacts (save_state ''MONITORING''
        (train_model fit (training_file (disk d) @ [row]) (append_training_data row d))),
      [Training (training_file (disk d) @ [row])])"
  using assms
  by (auto simp add: handle_calibration_def Let_def CALIBRATION_SAMPLES_def MAX_CALIBRATION_TIME_def
      append_training_data_def)

lemma feed_calibrating:
  assumes "state d = ''CALIBRATING''"
    and "length (training_file (disk d)) + length rs < 100"
    and "list_all (\<lambda>x. elapsed (fst x) d \<le> 300) rs"
  shows "feed fit d rs =
     (d\<lparr>disk := (disk d)\<lparr>training_file := training_file (disk d) @ map (mapped_reading \<circ> snd) rs\<rparr>\<rparr>, [])"
  using assms
proof (induction rs arbitrary: d)
  case Nil
  then show ?case by simp
next
  case (Cons x rs)
  let ?d1 = "append_training_data (mapped_reading (snd x)) d"
  have step: "process_reading fit (fst x) (snd x) d = (?d1, [])"
    using Cons.prems by (simp add: process_reading_def handle_calibration_continue)
  have "feed fit ?d1 rs =
     (?d1\<lparr>disk := (disk ?d1)\<lparr>training_file := training_file (disk ?d1) @ map (mapped_reading \<circ> snd) rs\<rparr>\<rparr>, [])"
  proof (rule Cons.IH)
    show "state ?d1 = ''CALIBRATING''" using Cons.prems(1) by (simp add: append_training_data_def)
    show "length (training_file (disk ?d1)) + length rs < 100"
      using Cons.prems(2) by (simp add: append_training_data_def)
    show "list_all (\<lambda>x. elapsed (fst x) ?d1 \<le> 300) rs"
      using Cons.prems(3) by simp
  qed
  then show ?case
    by (simp add: step Let_def append_training_data_def)
qed


lemma trained_state:
  assumes "fit df = Fitted sc m st"
  shows "state (load_artifacts (save_state ''MONITORING'' (train_model fit df d))) = ''MONITORING''"
    and "model (load_artifacts (save_state ''MONITORING'' (train_model fit df d))) = Some m"
    and "scaler (load_artifacts (save_state ''MONITORING'' (train_model fit df d))) = Some sc"
    and "score_mapping (load_artifacts (save_state ''MONITORING'' (train_model fit df d))) = st"
  using assms by (simp_all add: train_model_def save_state_def load_artifacts_def)

lemma feed_from_new:
  assumes "state d = ''NEW''" and "length rest < 99"
    and "list_all (\<lambda>y. fst y - fst x \<le> 300) rest"
  shows "state (fst (feed fit d (x # rest))) = ''CALIBRATING''"
    and "training_file (disk (fst (feed fit d (x # rest)))) = map (mapped_reading \<circ> snd) (x # rest)"
    and "calibration_start_time (fst (feed fit d (x # rest))) = Some (fst x)"
    and "snd (feed fit d (x # rest)) = []"
proof -
  let ?d1 = "append_training_data (mapped_reading (snd x)) (start_calibration (fst x) d)"
  have step: "process_reading fit (fst x) (snd x) d = (?d1, [])"
    using assms(1) by (simp add: process_reading_def)
  have st: "state ?d1 = ''CALIBRATING''"
    and tf: "training_file (disk ?d1) = [mapped_reading (snd x)]"
    and ct: "calibration_start_time ?d1 = Some (fst x)"
    by (simp_all add: append_training_data_def start_calibration_def save_state_def)
  have el: "elapsed t ?d1 \<le> 300" if "t - fst x \<le> 300" for t
    using that by (simp add: elapsed_def ct)
  have times: "list_all (\<lambda>y. elapsed (fst y) ?d1 \<le> 300) rest"
    using assms(3) el by (simp add: list_all_iff)
  have len: "length (training_file (disk ?d1)) + length rest < 100"
    using assms(2) by (simp add: tf)
  note f = feed_calibrating [OF st len times, of fit]
  show "state (fst (feed fit d (x # rest))) = ''CALIBRATING''"
    by (simp add: step Let_def f st)
  show "training_file (disk (fst (feed fit d (x # rest)))) = map (mapped_reading \<circ> snd) (x # rest)"
    by (simp add: step Let_def f tf)
  show "calibration_start_time (fst (feed fit d (x # rest))) = Some (fst x)"
    by (simp add: step Let_def f ct)
  show "snd (feed fit d (x # rest)) = []"
    by (simp add: step Let_def f)
qed

lemma feed_hundred:
  assumes "state d = ''NEW''" and "length rs = 100"
    and "list_all (\<lambda>y. fst y - fst (hd rs) \<le> 300) rs"
  shows "snd (feed fit d rs) = [Training (map (mapped_reading \<circ> snd) rs)]"
    and "fit (map (mapped_reading \<circ> snd) rs) = Fitted sc m st
           \<Longrightarrow> state (fst (feed fit d rs)) = ''MONITORING''"
proof -
  from assms(2) obtain x rest where rs: "rs = x # rest" and lr: "length rest = 99"
    by (cases rs) simp_all
  from lr obtain ys z where rest: "rest = ys @ [z]" and ly: "length ys = 98"
    by (cases rest rule: rev_cases) simp_all
  have times: "list_all (\<lambda>y. fst y - fst x \<le> 300) ys"
    using assms(3) by (simp add: rs rest)
  have lt: "length ys < 99" using ly by simp
  define d99 where "d99 = fst (feed fit d (x # ys))"
  define out99 where "out99 = snd (feed fit d (x # ys))"
  note inv = feed_from_new [OF assms(1) lt times, of fit, folded d99_def out99_def]
  have cond: "100 \<le> length (training_file (disk d99)) + 1 \<or> 300 < elapsed (fst z) d99"
    by (simp add: inv(2) ly)
  have df: "training_file (disk d99) @ [mapped_reading (snd z)] = map (mapped_reading \<circ> snd) rs"
    by (simp add: inv(2) rs rest)
  have last_step: "process_reading fit (fst z) (snd z) d99 =
     (load_artifacts (save_state ''MONITORING''
        (train_model fit (map (mapped_reading \<circ> snd) rs)
           (append_training_data (mapped_reading (snd z)) d99))),
      [Training (map (mapped_reading \<circ> snd) rs)])"
    using handle_calibration_train [OF cond, of fit "mapped_reading (snd z)"]
    by (simp add: process_reading_def inv(1) df)
  have "feed fit d ((x # ys) @ [z]) =
     (fst (feed fit d99 [z]), out99 @ snd (feed fit d99 [z]))"
    unfolding d99_def out99_def by (rule feed_append)
  then have split: "feed fit d rs =
     (fst (process_reading fit (fst z) (snd z) d99),
      out99 @ snd (process_reading fit (fst z) (snd z) d99))"
    by (simp add: rs rest Let_def)
  show "snd (feed fit d rs) = [Training (map (mapped_reading \<circ> snd) rs)]"
    by (simp add: split inv(4) last_step)
  show "state (fst (feed fit d rs)) = ''MONITORING''"
    if "fit (map (mapped_reading \<circ> snd) rs) = Fitted sc m st"
    using that by (simp add: split last_step trained_state(1) [where sc = sc and m = m and st = st])
qed

lemma feed_prefix:
  assumes "state d = ''NEW''" and "length rs = 100"
    and "list_all (\<lambda>y. fst y - fst (hd rs) \<le> 300) rs" and "0 < k" and "k < 100"
  shows "state (fst (feed fit d (take k rs))) = ''CALIBRATING''"
    and "snd (feed fit d (take k rs)) = []"
proof -
  from assms(2) obtain x rest where rs: "rs = x # rest" and lr: "length rest = 99"
    by (cases rs) simp_all
  from assms(4) obtain j where k: "k = Suc j" by (cases k) simp_all
  have tk: "take k rs = x # take j rest" by (simp add: rs k)
  have lt: "length (take j rest) < 99" using assms(5) lr k by simp
  have "list_all (\<lambda>y. fst y - fst x \<le> 300) rest"
    using assms(3) by (simp add: rs)
  then have times: "list_all (\<lambda>y. fst y - fst x \<le> 300) (take j rest)"
    by (auto simp: list_all_iff dest: in_set_takeD)
  note inv = feed_from_new [OF assms(1) lt times, of fit]
  show "state (fst (feed fit d (take k rs))) = ''CALIBRATING''"
    unfolding tk by (rule inv(1))
  show "snd (feed fit d (take k rs)) = []"
    unfolding tk by (rule inv(4))
qed


lemma DeviceManager_resumed:
  assumes "state (DeviceManager did fs) = ''CALIBRATING''"
  shows "calibration_start_time (DeviceManager did fs) = None"
    and "disk (DeviceManager did fs) = fs"
proof -
  have ls: "load_state fs \<noteq> ''MONITORING''"
  proof
    assume m: "load_state fs = ''MONITORING''"
    have "state (load_artifacts d) = ''MONITORING'' \<or> state (load_artifacts d) = ''NEW''"
      if "state d = ''MONITORING''" for d
      using that by (simp add: load_artifacts_def save_state_def Let_def split: stored.splits)
    from this [of "\<lparr>device_id = did, disk = fs, state = load_state fs,
        calibration_start_time = None, model = None, scaler = None,
        baseline_stats = empty_stats, score_mapping = empty_stats,
        last_processed_ts = None, sensor_buffer = [], health_history = [],
        last_risk = NORMAL\<rparr>"] m assms
    show False by (simp add: DeviceManager_def Let_def)
  qed
  show "calibration_start_time (DeviceManager did fs) = None"
    using ls by (simp add: DeviceManager_def Let_def)
  show "disk (DeviceManager did fs) = fs"
    using ls by (simp add: DeviceManager_def Let_def)
qed

lemma trainings_calibrating:
  assumes "state d = ''CALIBRATING''"
  shows "trainings (snd (process_reading fit now rd d)) =
     (if 100 \<le> length (training_file (disk d) @ [mapped_reading rd]) \<or> 300 < elapsed now d
      then [training_file (disk d) @ [mapped_reading rd]] else [])"
proof (cases "100 \<le> length (training_file (disk d)) + 1 \<or> 300 < elapsed now d")
  case True
  then show ?thesis
    using assms by (simp add: process_reading_def handle_calibration_train [OF True])
next
  case False
  then have "length (training_file (disk d)) + 1 < 100" and "elapsed now d \<le> 300"
    by simp_all
  then show ?thesis
    using assms False by (simp add: process_reading_def handle_calibration_continue)
qed

text \<open>
  C6 (as amended). For a device in CALIBRATING, training is called exactly when, after the
  new row is appended, the number of rows is at least 100 or the elapsed time exceeds 300
  seconds, and it is called on the whole buffer including the new row. The elapsed time is
  the clock minus the calibration start held by the running manager, and zero when it
  holds none: a manager built from a persisted CALIBRATING state holds none, so for a
  device resumed after a restart only the row count triggers training. A device that
  starts in NEW and is sent 100 readings, none later than 300 seconds after the first,
  stays in CALIBRATING without training through the first 99, trains on exactly the 100
  rows at the 100th, and is in MONITORING after it when the fit succeeds. The time limit
  is looked at only when a row is appended: a device whose 80th row is appended more than
  300 seconds after the calibration start trains on that 80-row buffer, and a device that
  already holds 80 rows trains on 81 rows when its next row is appended past the limit.
\<close>

theorem calibration_stopping_condition:
  "(state d = ''CALIBRATING'' \<longrightarrow>
      trainings (snd (process_reading fit now rd d)) =
        (if 100 \<le> length (training_file (disk d) @ [mapped_reading rd]) \<or> 300 < elapsed now d
         then [training_file (disk d) @ [mapped_reading rd]] else []))
   \<and> (calibration_start_time d = Some t0 \<and> t0 \<noteq> 0 \<longrightarrow> elapsed now d = now - t0)
   \<and> (calibration_start_time d = None \<longrightarrow> elapsed now d = 0)
   \<and> (state (DeviceManager did fs) = ''CALIBRATING'' \<longrightarrow>
        calibration_start_time (DeviceManager did fs) = None
        \<and> trainings (snd (process_reading fit now rd (DeviceManager did fs))) =
            (if 100 \<le> length (training_file fs @ [mapped_reading rd])
             then [training_file fs @ [mapped_reading rd]] else []))
   \<and> (state d0 = ''NEW'' \<and> length rs = 100 \<and> list_all (\<lambda>y. fst y - fst (hd rs) \<le> 300) rs \<longrightarrow>
        (\<forall>k. 0 < k \<and> k < 100 \<longrightarrow>
           state (fst (feed fit d0 (take k rs))) = ''CALIBRATING''
           \<and> trainings (snd (feed fit d0 (take k rs))) = [])
        \<and> trainings (snd (feed fit d0 rs)) = [map (mapped_reading \<circ> snd) rs]
        \<and> (\<forall>sc m st. fit (map (mapped_reading \<circ> snd) rs) = Fitted sc m st \<longrightarrow>
             state (fst (feed fit d0 rs)) = ''MONITORING''))
   \<and> (state d = ''CALIBRATING'' \<and> length (training_file (disk d)) = 79
        \<and> calibration_start_time d = Some t0 \<and> t0 \<noteq> 0 \<and> 300 < now - t0 \<longrightarrow>
        trainings (snd (process_reading fit now rd d)) = [training_file (disk d) @ [mapped_reading rd]]
        \<and> length (training_file (disk d) @ [mapped_reading rd]) = 80)
   \<and> (state d = ''CALIBRATING'' \<and> length (training_file (disk d)) = 80
        \<and> calibration_start_time d = Some t0 \<and> t0 \<noteq> 0 \<and> 300 < now - t0 \<longrightarrow>
        trainings (snd (process_reading fit now rd d)) = [training_file (disk d) @ [mapped_reading rd]]
        \<and> length (training_file (disk d) @ [mapped_reading rd]) = 81)"
proof -
  have a: "state d = ''CALIBRATING'' \<longrightarrow>
      trainings (snd (process_reading fit now rd d)) =
        (if 100 \<le> length (training_file (disk d) @ [mapped_reading rd]) \<or> 300 < elapsed now d
         then [training_file (disk d) @ [mapped_reading rd]] else [])"
    using trainings_calibrating by blast
  have e: "calibration_start_time d = Some t0 \<and> t0 \<noteq> 0 \<longrightarrow> elapsed now d = now - t0"
    by (simp add: elapsed_def)
  have n: "calibration_start_time d = None \<longrightarrow> elapsed now d = 0"
    by (simp add: elapsed_def)
  have r: "state (DeviceManager did fs) = ''CALIBRATING'' \<longrightarrow>
        calibration_start_time (DeviceManager did fs) = None
        \<and> trainings (snd (process_reading fit now rd (DeviceManager did fs))) =
            (if 100 \<le> length (training_file fs @ [mapped_reading rd])
             then [training_file fs @ [mapped_reading rd]] else [])"
  proof
    assume st: "state (DeviceManager did fs) = ''CALIBRATING''"
    note resumed = DeviceManager_resumed [OF st]
    have "elapsed now (DeviceManager did fs) = 0"
      by (simp add: elapsed_def resumed(1))
    then show "calibration_start_time (DeviceManager did fs) = None
        \<and> trainings (snd (process_reading fit now rd (DeviceManager did fs))) =
            (if 100 \<le> length (training_file fs @ [mapped_reading rd])
             then [training_file fs @ [mapped_reading rd]] else [])"
      by (simp add: trainings_calibrating [OF st] resumed)
  qed
  have b: "state d0 = ''NEW'' \<and> length rs = 100 \<and> list_all (\<lambda>y. fst y - fst (hd rs) \<le> 300) rs \<longrightarrow>
        (\<forall>k. 0 < k \<and> k < 100 \<longrightarrow>
           state (fst (feed fit d0 (take k rs))) = ''CALIBRATING''
           \<and> trainings (snd (feed fit d0 (take k rs))) = [])
        \<and> trainings (snd (feed fit d0 rs)) = [map (mapped_reading \<circ> snd) rs]
        \<and> (\<forall>sc m st. fit (map (mapped_reading \<circ> snd) rs) = Fitted sc m st \<longrightarrow>
             state (fst (feed fit d0 rs)) = ''MONITORING'')"
  proof (intro impI, elim conjE)
    assume h: "state d0 = ''NEW''" "length rs = 100"
      "list_all (\<lambda>y. fst y - fst (hd rs) \<le> 300) rs"
    have "state (fst (feed fit d0 (take k rs))) = ''CALIBRATING''
        \<and> trainings (snd (feed fit d0 (take k rs))) = []" if "0 < k" "k < 100" for k
      using feed_prefix [OF h that, of fit] by simp
    moreover have "trainings (snd (feed fit d0 rs)) = [map (mapped_reading \<circ> snd) rs]"
      by (simp add: feed_hundred(1) [OF h])
    moreover have "state (fst (feed fit d0 rs)) = ''MONITORING''"
      if "fit (map (mapped_reading \<circ> snd) rs) = Fitted sc m st" for sc m st
      using that by (rule feed_hundred(2) [OF h])
    ultimately show "(\<forall>k. 0 < k \<and> k < 100 \<longrightarrow>
           state (fst (feed fit d0 (take k rs))) = ''CALIBRATING''
           \<and> trainings (snd (feed fit d0 (take k rs))) = [])
        \<and> trainings (snd (feed fit d0 rs)) = [map (mapped_reading \<circ> snd) rs]
        \<and> (\<forall>sc m st. fit (map (mapped_reading \<circ> snd) rs) = Fitted sc m st \<longrightarrow>
             state (fst (feed fit d0 rs)) = ''MONITORING'')"
      by blast
  qed
  have c: "state d = ''CALIBRATING'' \<and> length (training_file (disk d)) = 79
        \<and> calibration_start_time d = Some t0 \<and> t0 \<noteq> 0 \<and> 300 < now - t0 \<longrightarrow>
        trainings (snd (process_reading fit now rd d)) = [training_file (disk d) @ [mapped_reading rd]]
        \<and> length (training_file (disk d) @ [mapped_reading rd]) = 80"
    using a e by simp
  have c': "state d = ''CALIBRATING'' \<and> length (training_file (disk d)) = 80
        \<and> calibration_start_time d = Some t0 \<and> t0 \<noteq> 0 \<and> 300 < now - t0 \<longrightarrow>
        trainings (snd (process_reading fit now rd d)) = [training_file (disk d) @ [mapped_reading rd]]
        \<and> length (training_file (disk d) @ [mapped_reading rd]) = 81"
    using a e by simp
  from a e n r b c c' show ?thesis by blast
qed

lemma ex_new_state: "state ex_new = ''NEW''"
  by (simp add: ex_new_def DeviceManager_def load_state_def)

lemma ex_calibrating_fields:
  "state (ex_calibrating n) = ''CALIBRATING''"
  "training_file (disk (ex_calibrating n)) = replicate n (mapped_reading (ex_reading 0))"
  "calibration_start_time (ex_calibrating n) = Some 1"
  "model_file (disk (ex_calibrating n)) = Content ex_forest"
  "scaler_file (disk (ex_calibrating n)) = Content ex_scaler"
  "calibration_file (disk (ex_calibrating n)) = Content ex_stats"
  by (simp_all add: ex_calibrating_def ex_files_def)

lemma ex_started:
  "calibration_start_time (fst (process_reading ex_fit 1 (ex_reading 0) ex_new)) = Some 1"
  "state_file (disk (fst (process_reading ex_fit 1 (ex_reading 0) ex_new)))
     = Content (Some ''CALIBRATING'')"
  "training_file (disk (fst (process_reading ex_fit 1 (ex_reading 0) ex_new)))
     = [mapped_reading (ex_reading 0)]"
  by (simp_all add: process_reading_def ex_new_state start_calibration_def save_state_def
      append_training_data_def)

lemma ex_resumed_state:
  "state (DeviceManager ''esp32'' (disk (fst (process_reading ex_fit 1 (ex_reading 0) ex_new))))
     = ''CALIBRATING''"
  by (simp add: DeviceManager_def load_state_def ex_started(2) Let_def)

lemma ex_batch_facts:
  "length ex_batch = 100"
  "list_all (\<lambda>y. fst y - fst (hd ex_batch) \<le> 300) ex_batch"
  "ex_fit (map (mapped_reading \<circ> snd) ex_batch) = Fitted ex_scaler ex_forest ex_stats"
proof -
  show "length ex_batch = 100" by (simp add: ex_batch_def)
  have "hd ex_batch = (1, ex_reading 0)"
    unfolding ex_batch_def by (subst hd_replicate) simp_all
  then show "list_all (\<lambda>y. fst y - fst (hd ex_batch) \<le> 300) ex_batch"
    by (simp add: list_all_iff) (simp add: ex_batch_def)
  show "ex_fit (map (mapped_reading \<circ> snd) ex_batch) = Fitted ex_scaler ex_forest ex_stats"
    by (simp add: ex_fit_def)
qed

theorem calibration_stopping_condition_witness:
  "trainings (snd (process_reading ex_fit 2 (ex_reading 0) (ex_calibrating 99)))
     = [training_file (disk (ex_calibrating 99)) @ [mapped_reading (ex_reading 0)]]
   \<and> trainings (snd (process_reading ex_fit 2 (ex_reading 0) (ex_calibrating 50))) = []
   \<and> calibration_start_time ex_resumed = None
   \<and> state (fst (feed ex_fit ex_new (take 99 ex_batch))) = ''CALIBRATING''
   \<and> trainings (snd (feed ex_fit ex_new ex_batch)) = [map (mapped_reading \<circ> snd) ex_batch]
   \<and> state (fst (feed ex_fit ex_new ex_batch)) = ''MONITORING''
   \<and> trainings (snd (process_reading ex_fit 302 (ex_reading 0) (ex_calibrating 79)))
     = [training_file (disk (ex_calibrating 79)) @ [mapped_reading (ex_reading 0)]]
   \<and> trainings (snd (process_reading ex_fit 302 (ex_reading 0) (ex_calibrating 80)))
     = [training_file (disk (ex_calibrating 80)) @ [mapped_reading (ex_reading 0)]]"
proof -
  have k: "(0::nat) < 99 \<and> (99::nat) < 100" by simp
  have e1: "elapsed 2 (ex_calibrating 99) = 1" "elapsed 2 (ex_calibrating 50) = 1"
    by (simp_all add: elapsed_def ex_calibrating_fields)
  have l99: "length (training_file (disk (ex_calibrating 99)) @ [mapped_reading (ex_reading 0)]) = 100"
    and l50: "length (training_file (disk (ex_calibrating 50)) @ [mapped_reading (ex_reading 0)]) = 51"
    and l79: "length (training_file (disk (ex_calibrating 79))) = 79"
    and l80: "length (training_file (disk (ex_calibrating 80))) = 80"
    by (simp_all add: ex_calibrating_fields)
  have t: "(300::real) < 302 - 1" "(1::real) \<noteq> 0" by simp_all
  note w1 = calibration_stopping_condition [where d = "ex_calibrating 99" and fit = ex_fit
      and now = 2 and rd = "ex_reading 0" and ?d0.0 = ex_new and rs = ex_batch and ?t0.0 = 1
      and did = "''esp32''"
      and fs = "disk (fst (process_reading ex_fit 1 (ex_reading 0) ex_new))"]
  note w2 = calibration_stopping_condition [where d = "ex_calibrating 50" and fit = ex_fit
      and now = 2 and rd = "ex_reading 0" and ?d0.0 = ex_new and rs = ex_batch and ?t0.0 = 1]
  note w3 = calibration_stopping_condition [where d = "ex_calibrating 79" and fit = ex_fit
      and now = 302 and rd = "ex_reading 0" and ?d0.0 = ex_new and rs = ex_batch and ?t0.0 = 1]
  note w4 = calibration_stopping_condition [where d = "ex_calibrating 80" and fit = ex_fit
      and now = 302 and rd = "ex_reading 0" and ?d0.0 = ex_new and rs = ex_batch and ?t0.0 = 1]
  have p1: "trainings (snd (process_reading ex_fit 2 (ex_reading 0) (ex_calibrating 99)))
     = [training_file (disk (ex_calibrating 99)) @ [mapped_reading (ex_reading 0)]]"
    using w1 [THEN conjunct1] ex_calibrating_fields(1) [of 99] by (simp only: l99 e1) simp
  have p2: "trainings (snd (process_reading ex_fit 2 (ex_reading 0) (ex_calibrating 50))) = []"
    using w2 [THEN conjunct1] ex_calibrating_fields(1) [of 50] by (simp only: l50 e1) simp
  have pr: "calibration_start_time ex_resumed = None"
    using w1 [THEN conjunct2, THEN conjunct2, THEN conjunct2, THEN conjunct1] ex_resumed_state
    unfolding ex_resumed_def by blast
  note b = w1 [THEN conjunct2, THEN conjunct2, THEN conjunct2, THEN conjunct2, THEN conjunct1,
      THEN mp, OF conjI [OF ex_new_state conjI [OF ex_batch_facts(1,2)]]]
  have p3: "state (fst (feed ex_fit ex_new (take 99 ex_batch))) = ''CALIBRATING''"
    using b k by blast
  have p4: "trainings (snd (feed ex_fit ex_new ex_batch)) = [map (mapped_reading \<circ> snd) ex_batch]"
    using b by blast
  have p5: "state (fst (feed ex_fit ex_new ex_batch)) = ''MONITORING''"
    using b ex_batch_facts(3) by blast
  have p6: "trainings (snd (process_reading ex_fit 302 (ex_reading 0) (ex_calibrating 79)))
     = [training_file (disk (ex_calibrating 79)) @ [mapped_reading (ex_reading 0)]]"
    using w3 [THEN conjunct2, THEN conjunct2, THEN conjunct2, THEN conjunct2, THEN conjunct2,
        THEN conjunct1]
      ex_calibrating_fields(1,3) [of 79] l79 t by blast
  have p7: "trainings (snd (process_reading ex_fit 302 (ex_reading 0) (ex_calibrating 80)))
     = [training_file (disk (ex_calibrating 80)) @ [mapped_reading (ex_reading 0)]]"
    using w4 [THEN conjunct2, THEN conjunct2, THEN conjunct2, THEN conjunct2, THEN conjunct2,
        THEN conjunct2]
      ex_calibrating_fields(1,3) [of 80] l80 t by blast
  from p1 p2 pr p3 p4 p5 p6 p7 show ?thesis by blast
qed

theorem calibration_timeout_counterexample:
  "calibration_start_time (fst (process_reading ex_fit 1 (ex_reading 0) ex_new)) = Some 1
   \<and> state ex_resumed = ''CALIBRATING''
   \<and> (300::real) < 1000 - 1
   \<and> trainings (snd (process_reading ex_fit 1000 (ex_reading 0) ex_resumed)) = []
   \<and> state (fst (process_reading ex_fit 1000 (ex_reading 0) ex_resumed)) = ''CALIBRATING''
   \<and> length (training_file (disk (ex_calibrating 80))) = 80
   \<and> trainings (snd (process_reading ex_fit 302 (ex_reading 0) (ex_calibrating 80)))
       = [training_file (disk (ex_calibrating 80)) @ [mapped_reading (ex_reading 0)]]
   \<and> length (training_file (disk (ex_calibrating 80)) @ [mapped_reading (ex_reading 0)]) = 81"
proof -
  have l80: "length (training_file (disk (ex_calibrating 80))) = 80"
    by (simp add: ex_calibrating_fields)
  have e80: "elapsed 302 (ex_calibrating 80) = 301"
    by (simp add: elapsed_def ex_calibrating_fields)
  have stuck: "trainings (snd (process_reading ex_fit 302 (ex_reading 0) (ex_calibrating 80)))
       = [training_file (disk (ex_calibrating 80)) @ [mapped_reading (ex_reading 0)]]"
    by (simp add: trainings_calibrating [OF ex_calibrating_fields(1)] e80)
  note resumed = DeviceManager_resumed [OF ex_resumed_state, folded ex_resumed_def]
  have el: "elapsed 1000 ex_resumed = 0"
    by (simp add: elapsed_def resumed(1))
  have rows: "length (training_file (disk ex_resumed)) = 1"
    by (simp add: resumed(2) ex_started(3))
  have none: "trainings (snd (process_reading ex_fit 1000 (ex_reading 0) ex_resumed)) = []"
    using rows
    by (simp add: trainings_calibrating [OF ex_resumed_state [folded ex_resumed_def]] el)
  have stays: "state (fst (process_reading ex_fit 1000 (ex_reading 0) ex_resumed)) = ''CALIBRATING''"
    using rows ex_resumed_state [folded ex_resumed_def]
    by (simp add: process_reading_def handle_calibration_continue el append_training_data_def)
  from ex_started(1) ex_resumed_state [folded ex_resumed_def] none stays l80 stuck
  show ?thesis by simp
qed

section \<open>Training failure and start-up\<close>

lemma load_artifacts_state:
  "state (load_artifacts (save_state ''MONITORING'' d)) =
     (if loadable (model_file (disk d)) \<and> loadable (scaler_file (disk d))
         \<and> loadable (calibration_file (disk d))
      then ''MONITORING'' else ''NEW'')"
  by (auto simp add: load_artifacts_def save_state_def loadable_def Let_def split: stored.splits)

lemma load_artifacts_training_file:
  "training_file (disk (load_artifacts d)) = training_file (disk d)"
  by (simp add: load_artifacts_def save_state_def Let_def split: stored.splits)

text \<open>
  C5 (what the code does). When the stopping condition has fired and fitting raises,
  \<open>train_model\<close> saves NEW, but \<open>handle_calibration\<close> then saves MONITORING and loads
  the artifacts: the device ends in NEW only if one of the artifacts then on disk cannot
  be loaded, and in MONITORING when the artifacts that the failed fit did not replace are
  still there from an earlier training. The rows collected so far remain in the training
  file.
\<close>

theorem training_failure_state:
  assumes "state d = ''CALIBRATING''"
    and "100 \<le> length (training_file (disk d)) + 1 \<or> 300 < elapsed now d"
  shows "(fit (training_file (disk d) @ [mapped_reading rd]) = ScalerFailed \<longrightarrow>
            state (fst (process_reading fit now rd d)) =
              (if loadable (model_file (disk d)) \<and> loadable (scaler_file (disk d))
                  \<and> loadable (calibration_file (disk d))
               then ''MONITORING'' else ''NEW''))
       \<and> (fit (training_file (disk d) @ [mapped_reading rd]) = ForestFailed sc \<longrightarrow>
            state (fst (process_reading fit now rd d)) =
              (if loadable (model_file (disk d)) \<and> loadable (calibration_file (disk d))
               then ''MONITORING'' else ''NEW''))
       \<and> (fit (training_file (disk d) @ [mapped_reading rd]) = StatsFailed sc m \<longrightarrow>
            state (fst (process_reading fit now rd d)) =
              (if loadable (calibration_file (disk d)) then ''MONITORING'' else ''NEW''))
       \<and> (fit (training_file (disk d) @ [mapped_reading rd]) = StatsWriteFailed sc m \<longrightarrow>
            state (fst (process_reading fit now rd d)) = ''NEW'')
       \<and> training_file (disk (fst (process_reading fit now rd d)))
          = training_file (disk d) @ [mapped_reading rd]"
proof -
  let ?df = "training_file (disk d) @ [mapped_reading rd]"
  let ?d1 = "append_training_data (mapped_reading rd) d"
  have step: "fst (process_reading fit now rd d) =
      load_artifacts (save_state ''MONITORING'' (train_model fit ?df ?d1))"
    using assms(1) by (simp add: process_reading_def handle_calibration_train [OF assms(2)])
  have rows: "training_file (disk (train_model fit ?df ?d1)) = ?df"
    by (simp add: train_model_def save_state_def append_training_data_def
        split: fit_result.splits)
  have "fit ?df = ScalerFailed \<longrightarrow>
      state (load_artifacts (save_state ''MONITORING'' (train_model fit ?df ?d1))) =
        (if loadable (model_file (disk d)) \<and> loadable (scaler_file (disk d))
            \<and> loadable (calibration_file (disk d))
         then ''MONITORING'' else ''NEW'')"
    unfolding load_artifacts_state
    by (simp add: train_model_def save_state_def append_training_data_def)
  moreover have "fit ?df = ForestFailed sc \<longrightarrow>
      state (load_artifacts (save_state ''MONITORING'' (train_model fit ?df ?d1))) =
        (if loadable (model_file (disk d)) \<and> loadable (calibration_file (disk d))
         then ''MONITORING'' else ''NEW'')"
    unfolding load_artifacts_state
    by (simp add: train_model_def save_state_def append_training_data_def loadable_def)
  moreover have "fit ?df = StatsFailed sc m \<longrightarrow>
      state (load_artifacts (save_state ''MONITORING'' (train_model fit ?df ?d1))) =
        (if loadable (calibration_file (disk d)) then ''MONITORING'' else ''NEW'')"
    unfolding load_artifacts_state
    by (simp add: train_model_def save_state_def append_training_data_def loadable_def)
  moreover have "fit ?df = StatsWriteFailed sc m \<longrightarrow>
      state (load_artifacts (save_state ''MONITORING'' (train_model fit ?df ?d1))) = ''NEW''"
    unfolding load_artifacts_state
    by (simp add: train_model_def save_state_def append_training_data_def loadable_def)
  moreover have "training_file (disk (load_artifacts (save_state ''MONITORING''
      (train_model fit ?df ?d1)))) = ?df"
    by (simp add: load_artifacts_training_file save_state_def rows)
  ultimately show ?thesis
    unfolding step by blast
qed

theorem training_failure_state_witness:
  "state (fst (process_reading (\<lambda>df. ScalerFailed) 2 (ex_reading 0) (ex_calibrating 99)))
     = ''MONITORING''"
proof -
  have c: "100 \<le> length (training_file (disk (ex_calibrating 99))) + 1
      \<or> 300 < elapsed 2 (ex_calibrating 99)"
    by (simp add: ex_calibrating_fields)
  show ?thesis
    using training_failure_state [OF ex_calibrating_fields(1) c, where fit = "\<lambda>df. ScalerFailed"
        and rd = "ex_reading 0"]
    by (simp add: ex_calibrating_fields loadable_def)
qed

text \<open>
  C10 (as amended). At start-up, when the state file is missing or unreadable and both the
  model file and the scaler file exist: if the model, the scaler and the calibration file
  all load, the device starts in MONITORING with them loaded and nothing is written to
  disk; if one of the three cannot be loaded, the device starts in NEW and NEW is
  persisted.
\<close>

theorem startup_without_state_file:
  assumes "state_file fs = Missing \<or> state_file fs = Corrupt"
    and "model_file fs \<noteq> Missing" and "scaler_file fs \<noteq> Missing"
  shows "(model_file fs = Content m \<and> scaler_file fs = Content sc
          \<and> calibration_file fs = Content st \<longrightarrow>
            state (DeviceManager did fs) = ''MONITORING''
            \<and> model (DeviceManager did fs) = Some m
            \<and> scaler (DeviceManager did fs) = Some sc
            \<and> score_mapping (DeviceManager did fs) = st
            \<and> baseline_stats (DeviceManager did fs) = st
            \<and> disk (DeviceManager did fs) = fs)
       \<and> (\<not> (loadable (model_file fs) \<and> loadable (scaler_file fs)
               \<and> loadable (calibration_file fs)) \<longrightarrow>
            state (DeviceManager did fs) = ''NEW''
            \<and> state_file (disk (DeviceManager did fs)) = Content (Some ''NEW''))"
proof -
  have ls: "load_state fs = ''MONITORING''"
    using assms by (auto simp: load_state_def)
  show ?thesis
    by (simp add: DeviceManager_def ls load_artifacts_def save_state_def loadable_def Let_def
        split: stored.splits)
qed

theorem startup_without_state_file_witness:
  "state (DeviceManager ''esp32'' ex_files) = ''MONITORING''
   \<and> disk (DeviceManager ''esp32'' ex_files) = ex_files
   \<and> state (DeviceManager ''esp32'' (ex_files\<lparr>calibration_file := Corrupt\<rparr>)) = ''NEW''"
proof -
  have a: "state_file ex_files = Missing \<or> state_file ex_files = Corrupt"
    "model_file ex_files \<noteq> Missing" "scaler_file ex_files \<noteq> Missing"
    by (simp_all add: ex_files_def)
  have b: "state_file (ex_files\<lparr>calibration_file := Corrupt\<rparr>) = Missing
      \<or> state_file (ex_files\<lparr>calibration_file := Corrupt\<rparr>) = Corrupt"
    "model_file (ex_files\<lparr>calibration_file := Corrupt\<rparr>) \<noteq> Missing"
    "scaler_file (ex_files\<lparr>calibration_file := Corrupt\<rparr>) \<noteq> Missing"
    by (simp_all add: ex_files_def)
  have c: "model_file ex_files = Content ex_forest \<and> scaler_file ex_files = Content ex_scaler
      \<and> calibration_file ex_files = Content ex_stats"
    by (simp add: ex_files_def)
  have n: "\<not> (loadable (model_file (ex_files\<lparr>calibration_file := Corrupt\<rparr>))
      \<and> loadable (scaler_file (ex_files\<lparr>calibration_file := Corrupt\<rparr>))
      \<and> loadable (calibration_file (ex_files\<lparr>calibration_file := Corrupt\<rparr>)))"
    by (simp add: loadable_def)
  show ?thesis
    using startup_without_state_file [OF a, of ex_forest ex_scaler ex_stats "''esp32''"] c
      startup_without_state_file [OF b, of ex_forest ex_scaler ex_stats "''esp32''"] n
    by blast
qed

theorem startup_without_calibration_counterexample:
  "state_file (ex_files\<lparr>calibration_file := Missing\<rparr>) = Missing
   \<and> model_file (ex_files\<lparr>calibration_file := Missing\<rparr>) \<noteq> Missing
   \<and> scaler_file (ex_files\<lparr>calibration_file := Missing\<rparr>) \<noteq> Missing
   \<and> state (DeviceManager ''esp32'' (ex_files\<lparr>calibration_file := Missing\<rparr>)) = ''NEW''"
  by (simp add: ex_files_def DeviceManager_def load_state_def load_artifacts_def save_state_def)


section \<open>Duplicate delivery\<close>

lemma load_artifacts_ts: "last_processed_ts (load_artifacts d) = last_processed_ts d"
  by (simp add: load_artifacts_def save_state_def Let_def split: stored.splits)

lemma train_model_ts: "last_processed_ts (train_model fit df d) = last_processed_ts d"
  by (simp add: train_model_def save_state_def split: fit_result.splits)

lemma handle_calibration_ts:
  "last_processed_ts (fst (handle_calibration fit now row d)) = last_processed_ts d"
  by (simp add: handle_calibration_def Let_def load_artifacts_ts save_state_def train_model_ts
      append_training_data_def)

lemma handle_monitoring_ts:
  "last_processed_ts (fst (handle_monitoring now row d)) = last_processed_ts d"
  by (simp add: handle_monitoring_def Let_def split: option.splits)

lemma process_reading_ts:
  "last_processed_ts (fst (process_reading fit now rd d)) = last_processed_ts d"
  by (simp add: process_reading_def handle_calibration_ts handle_monitoring_ts
      append_training_data_def start_calibration_def save_state_def)

lemma run_body_known:
  assumes "devices sys did = Some dev"
  shows "run_body fit now did (Dict rd) sys =
     (case timestamp rd of
        None \<Rightarrow> (sys, [])
      | Some ts_str \<Rightarrow>
          if ts_str = [] \<or> last_processed_ts dev = Some ts_str then (sys, [])
          else (sys\<lparr>devices := (devices sys)(did \<mapsto>
                    fst (process_reading fit now rd (dev\<lparr>last_processed_ts := Some ts_str\<rparr>)))\<rparr>,
                snd (process_reading fit now rd (dev\<lparr>last_processed_ts := Some ts_str\<rparr>))))"
  using assms by (simp add: run_body_def Let_def split: option.splits)

lemma run_body_unknown:
  assumes "devices sys did = None"
  shows "run_body fit now did (Dict rd) sys =
     run_body fit now did (Dict rd)
       (sys\<lparr>devices := (devices sys)(did \<mapsto> DeviceManager did (models_dir sys did))\<rparr>)"
  using assms by (simp add: run_body_def Let_def)

lemma run_body_duplicate_known:
  assumes "devices sys did = Some dev" and "timestamp r2 = timestamp r1"
  shows "run_body fit t2 did (Dict r2) (fst (run_body fit t1 did (Dict r1) sys))
           = (fst (run_body fit t1 did (Dict r1) sys), [])"
proof (cases "timestamp r1")
  case None
  then show ?thesis using assms by (simp add: run_body_known)
next
  case (Some ts)
  show ?thesis
  proof (cases "ts = [] \<or> last_processed_ts dev = Some ts")
    case True
    then show ?thesis using assms Some by (auto simp: run_body_known)
  next
    case False
    let ?dev' = "fst (process_reading fit t1 r1 (dev\<lparr>last_processed_ts := Some ts\<rparr>))"
    let ?sys' = "sys\<lparr>devices := (devices sys)(did \<mapsto> ?dev')\<rparr>"
    have first: "fst (run_body fit t1 did (Dict r1) sys) = ?sys'"
      using False Some assms(1) by (simp add: run_body_known)
    have known: "devices ?sys' did = Some ?dev'" by simp
    have ts: "last_processed_ts ?dev' = Some ts"
      by (simp add: process_reading_ts)
    show ?thesis
      unfolding first using assms(2) Some ts by (simp add: run_body_known [OF known])
  qed
qed

text \<open>
  C7. When two consecutive readings of a device carry the same timestamp, processing the
  second leaves the whole system unchanged and has no effect: it is dropped before
  \<open>process_reading\<close>. The first one, when its timestamp is non-empty and differs from
  the last one processed for the device, reaches \<open>process_reading\<close> once and records
  its timestamp.
\<close>

theorem duplicate_timestamp_dropped:
  assumes "timestamp r2 = timestamp r1"
  shows "run_body fit t2 did (Dict r2) (fst (run_body fit t1 did (Dict r1) sys))
           = (fst (run_body fit t1 did (Dict r1) sys), [])
       \<and> (timestamp r1 = Some ts \<and> ts \<noteq> []
            \<and> dev = (case devices sys did of
                        None \<Rightarrow> DeviceManager did (models_dir sys did)
                      | Some known \<Rightarrow> known)
            \<and> last_processed_ts dev \<noteq> Some ts \<longrightarrow>
            run_body fit t1 did (Dict r1) sys =
              (sys\<lparr>devices := (devices sys)(did \<mapsto>
                     fst (process_reading fit t1 r1 (dev\<lparr>last_processed_ts := Some ts\<rparr>)))\<rparr>,
               snd (process_reading fit t1 r1 (dev\<lparr>last_processed_ts := Some ts\<rparr>)))
            \<and> last_processed_ts
                 (fst (process_reading fit t1 r1 (dev\<lparr>last_processed_ts := Some ts\<rparr>))) = Some ts)"
proof -
  have dup: "run_body fit t2 did (Dict r2) (fst (run_body fit t1 did (Dict r1) sys))
           = (fst (run_body fit t1 did (Dict r1) sys), [])"
  proof (cases "devices sys did")
    case None
    let ?sys1 = "sys\<lparr>devices := (devices sys)(did \<mapsto> DeviceManager did (models_dir sys did))\<rparr>"
    have k: "devices ?sys1 did = Some (DeviceManager did (models_dir sys did))" by simp
    show ?thesis
      unfolding run_body_unknown [OF None, of fit t1 r1]
      by (rule run_body_duplicate_known [OF k assms])
  next
    case (Some dev)
    then show ?thesis by (rule run_body_duplicate_known [OF _ assms])
  qed
  have once: "timestamp r1 = Some ts \<and> ts \<noteq> []
            \<and> dev = (case devices sys did of
                        None \<Rightarrow> DeviceManager did (models_dir sys did)
                      | Some known \<Rightarrow> known)
            \<and> last_processed_ts dev \<noteq> Some ts \<longrightarrow>
            run_body fit t1 did (Dict r1) sys =
              (sys\<lparr>devices := (devices sys)(did \<mapsto>
                     fst (process_reading fit t1 r1 (dev\<lparr>last_processed_ts := Some ts\<rparr>)))\<rparr>,
               snd (process_reading fit t1 r1 (dev\<lparr>last_processed_ts := Some ts\<rparr>)))
            \<and> last_processed_ts
                 (fst (process_reading fit t1 r1 (dev\<lparr>last_processed_ts := Some ts\<rparr>))) = Some ts"
    by (cases "devices sys did") (auto simp add: run_body_def Let_def process_reading_ts)
  from dup once show ?thesis by blast
qed

theorem duplicate_timestamp_dropped_witness:
  "run_body ex_fit 2 ''esp32'' (Dict (ex_reading 1))
     (fst (run_body ex_fit 1 ''esp32'' (Dict (ex_reading 1)) ex_system))
     = (fst (run_body ex_fit 1 ''esp32'' (Dict (ex_reading 1)) ex_system), [])
   \<and> snd (run_body ex_fit 1 ''esp32'' (Dict (ex_reading 1)) ex_system) =
       [Gate False,
        Publish ''machine_guard/esp32/status''
          \<lparr>p_device_id = ''esp32'', p_risk = NORMAL, p_timestamp = 1\<rparr>]"
proof -
  have dm: "DeviceManager ''esp32'' ex_files = ex_monitoring"
    by (simp add: DeviceManager_def ex_files_def load_state_def load_artifacts_def
        ex_monitoring_def empty_stats_def)
  have ts: "timestamp (ex_reading 1) = Some ''2024-01-01T00:00:00''"
    by (simp add: ex_reading_def)
  have dev: "ex_monitoring = (case devices ex_system ''esp32'' of
      None \<Rightarrow> DeviceManager ''esp32'' (models_dir ex_system ''esp32'') | Some known \<Rightarrow> known)"
    by (simp add: ex_system_def dm)
  have fresh: "last_processed_ts ex_monitoring \<noteq> Some ''2024-01-01T00:00:00''"
    by (simp add: ex_monitoring_def)
  have h: "scoring ex_forest (scaler (ex_monitoring\<lparr>last_processed_ts := Some ''2024-01-01T00:00:00''\<rparr>))
      (score_mapping (ex_monitoring\<lparr>last_processed_ts := Some ''2024-01-01T00:00:00''\<rparr>))
      (mapped_reading (ex_reading 1)) = Some 100"
    by (simp add: ex_monitoring_fields ex_scoring np_interp_three)
  have out: "snd (process_reading ex_fit 1 (ex_reading 1)
      (ex_monitoring\<lparr>last_processed_ts := Some ''2024-01-01T00:00:00''\<rparr>)) =
       [Gate False,
        Publish ''machine_guard/esp32/status''
          \<lparr>p_device_id = ''esp32'', p_risk = NORMAL, p_timestamp = 1\<rparr>]"
    by (simp add: process_reading_def ex_monitoring_fields
        handle_monitoring_scored [OF _ h] risk_logic_def should_publish_normal)
  note w = duplicate_timestamp_dropped [of "ex_reading 1" "ex_reading 1" ex_fit 2 "''esp32''" 1
      ex_system "''2024-01-01T00:00:00''" ex_monitoring, OF refl]
  have nonempty: "''2024-01-01T00:00:00'' \<noteq> []" by simp
  from w ts dev fresh nonempty
  have "run_body ex_fit 1 ''esp32'' (Dict (ex_reading 1)) ex_system =
      (ex_system\<lparr>devices := (devices ex_system)(''esp32'' \<mapsto>
         fst (process_reading ex_fit 1 (ex_reading 1)
           (ex_monitoring\<lparr>last_processed_ts := Some ''2024-01-01T00:00:00''\<rparr>)))\<rparr>,
       snd (process_reading ex_fit 1 (ex_reading 1)
           (ex_monitoring\<lparr>last_processed_ts := Some ''2024-01-01T00:00:00''\<rparr>)))"
    by blast
  then have "snd (run_body ex_fit 1 ''esp32'' (Dict (ex_reading 1)) ex_system) =
       [Gate False,
        Publish ''machine_guard/esp32/status''
          \<lparr>p_device_id = ''esp32'', p_risk = NORMAL, p_timestamp = 1\<rparr>]"
    by (simp add: out)
  with w show ?thesis by blast
qed

end
